theory Spec2Isabelle
  imports Main "HOL-Library.Sublist"
begin

section \<open>Data model\<close>

text \<open>
  The rolling-update tool talks to two remote systems (the autoscaling control plane and
  the Kubernetes API server). Every call that leaves the process is recorded as an
  \<open>event\<close> in a trace, in program order; the answer of the remote system is read from an
  environment record whose fields are functions of the trace so far, so an answer may
  change over time (a group becomes healthy after some polls, say).

  Exceptions are values of type \<open>error\<close>; a computation returns its trace and
  \<open>Inl\<close> of the exception it raised or \<open>Inr\<close> of its result.
\<close>

datatype error =
    HealthcheckFailed
    \<comment> \<open>\<open>Exception('ASG healthcheck failed')\<close>\<close>
  | EvictFailed string string
    \<comment> \<open>\<open>Exception("Failed to evict pod {name} from namespace {ns}: ...")\<close>\<close>
  | DrainFailed string
    \<comment> \<open>\<open>Exception("Failed to drain node {node_name}")\<close>\<close>
  | RollingUpdateException string string
    \<comment> \<open>message, group name\<close>
  | TypeError
  | ValueError
  | KeyError
  | AttributeError
  | OverflowError
  | SystemExit int
    \<comment> \<open>\<open>exit(n)\<close>, \<open>sys.exit(n)\<close>: not an \<open>Exception\<close>\<close>

text \<open>\<open>except Exception\<close> catches everything but \<open>SystemExit\<close>.\<close>

fun is_Exception :: "error \<Rightarrow> bool" where
  "is_Exception (SystemExit n) = False"
| "is_Exception e = True"

text \<open>
  Log lines. Only the lines the properties below refer to are recorded, each by its
  format and its arguments.
\<close>

datatype log_msg =
    WaitingForAsgToScale int
    \<comment> \<open>"Waiting for {wait} seconds for ASG to scale before validating cluster health..."\<close>
  | WaitingBeforeValidating int
    \<comment> \<open>"Waiting for {wait} seconds before validating cluster health..."\<close>
  | NotEnoughInstances string
    \<comment> \<open>"Validation failed for asg {asg_name}. Not enough instances online."\<close>
  | InstancesNotHealthy string
    \<comment> \<open>"Validation failed for asg {asg_name}. Some instances not yet healthy."\<close>
  | NodeCountNotReached string int
    \<comment> \<open>"Validation failed for cluster {cluster_name}. Didn't reach expected node count {n}."\<close>
  | NodesNotReady
    \<comment> \<open>"Validation failed for cluster. Expected node count reached but nodes are not ready."\<close>
  | ValidationPassed
    \<comment> \<open>"Cluster validation passed. Proceeding with node draining and termination..."\<close>
  | CheckingNodesOnline
    \<comment> \<open>"Checking k8s expected nodes are online after asg scaled up..."\<close>
  | CheckingNodesHealth
    \<comment> \<open>"Checking k8s nodes health status..."\<close>
  | SkippingAsg string
    \<comment> \<open>"Skipping ASG {asg_name} as it is not in the worker group order."\<close>
  | NodeWasExcluded string
    \<comment> \<open>"Node {node_name} was excluded"\<close>
  | CordonError string
    \<comment> \<open>"Encountered an error when adding taint/cordoning node {node_name}"\<close>
  | InstanceTerminated string
    \<comment> \<open>"Instance {id} terminated successfully."\<close>
  | TerminationFailed string
    \<comment> \<open>"Instance {id} termination failed or timed out. Continuing to next instance."\<close>
  | RollingUpdateComplete string
    \<comment> \<open>"*** Rolling update of asg {asg_name} is complete! ***"\<close>
  | NoAutoscalerRunning
    \<comment> \<open>"No k8s autoscaler running."\<close>
  | AllAsgComplete
    \<comment> \<open>"*** Rolling update of all asg is complete! ***"\<close>
  | UpdateFailedExiting
    \<comment> \<open>"*** Rolling update of ASG has failed. Exiting ***"\<close>
  | AwsResumeManually
    \<comment> \<open>"AWS Auto Scaling Group processes will need resuming manually"\<close>
  | AutoscalerResumeManually
    \<comment> \<open>"Kubernetes Cluster Autoscaler will need resuming manually"\<close>
  | KubectlRequired
    \<comment> \<open>"kubectl is required to be installed before proceeding"\<close>
  | RunningDryRun
    \<comment> \<open>"*** Running DRY RUN! ***"\<close>

datatype event =
    Sleep int
    \<comment> \<open>\<open>time.sleep(seconds)\<close>\<close>
  | Log log_msg
  | ModifyAwsAutoscaling string string
    \<comment> \<open>\<open>modify_aws_autoscaling(asg_name, action)\<close>\<close>
  | SaveAsgTags string string int
    \<comment> \<open>\<open>save_asg_tags(asg_name, key, value)\<close>\<close>
  | DeleteAsgTags string string
    \<comment> \<open>\<open>delete_asg_tags(asg_name, key)\<close>\<close>
  | ScaleAsg string int int int
    \<comment> \<open>\<open>scale_asg(asg_name, old_desired, new_desired, new_max)\<close>\<close>
  | IsAsgScaled string int
  | IsAsgHealthy string
  | CountAllClusterInstances string bool
  | TerminateInstanceInAsg string
  | GetAsgs string
  | PlanAsgs
  | PlanAsgsOlderNodes
  | ListNode
    \<comment> \<open>\<open>CoreV1Api().list_node()\<close>\<close>
  | PatchNodeUnschedulable string bool
    \<comment> \<open>\<open>patch_node\<close> with \<open>unschedulable=True\<close>; node name, dry-run flag\<close>
  | PatchNodeTaint string bool
    \<comment> \<open>\<open>patch_node\<close> with the \<open>NoSchedule\<close> taint; node name, dry-run flag\<close>
  | ListPods string
    \<comment> \<open>\<open>list_pod_for_all_namespaces\<close> with the node's field selector\<close>
  | EvictPod string string
    \<comment> \<open>\<open>create_namespaced_pod_eviction(name, namespace)\<close>\<close>
  | DeleteNodeApi string bool
    \<comment> \<open>\<open>CoreV1Api().delete_node\<close>; node name, dry-run flag\<close>
  | ReadAutoscalerDeployment
    \<comment> \<open>\<open>read_namespaced_deployment\<close> of the cluster autoscaler\<close>
  | PatchAutoscalerDeployment int
    \<comment> \<open>\<open>patch_namespaced_deployment\<close> with the replica count\<close>

type_synonym trace = "event list"

record asg =
  AutoScalingGroupName :: string
  MaxSize :: int
  DesiredCapacity :: int
  Tags :: "(string \<times> string) list"

record outdated_instance =
  InstanceId :: string

record k8s_node =
  node_name :: string
  \<comment> \<open>\<open>metadata.name\<close>\<close>
  provider_id :: "string option"
  \<comment> \<open>\<open>spec.provider_id\<close>, which may be \<open>None\<close>\<close>
  labels :: "string list"
  \<comment> \<open>the keys of \<open>metadata.labels\<close>\<close>
  conditions :: "(string \<times> string) list"
  \<comment> \<open>\<open>status.conditions\<close> as (type, status)\<close>

record pod =
  pod_name :: string
  pod_namespace :: string
  owner_kinds :: "string list"
  \<comment> \<open>the \<open>kind\<close> of each of \<open>metadata.owner_references\<close>\<close>

type_synonym plan = "(string \<times> outdated_instance list \<times> asg) list"
  \<comment> \<open>the dict \<open>asg_name \<rightarrow> (outdated_instances, asg)\<close>, in insertion order\<close>

datatype deployment_read = Replicas int | NoReplicas | NotFound | ApiError
  \<comment> \<open>answer of \<open>read_namespaced_deployment\<close>: \<open>status.replicas\<close> when it is a number,
      \<open>status.replicas\<close> being \<open>None\<close>, a 404, another API error\<close>

text \<open>
  The configuration (\<open>app_config\<close>, from \<open>config.py\<close>, which is not among the sources) is a
  parameter. \<open>K8S_WORKER_GROUPS_ORDER\<close> is the list after \<open>json.loads\<close>,
  \<open>K8S_PARALLEL_NODES_COUNT\<close> the number after \<open>int\<close>.
\<close>

record config =
  RUN_MODE :: int
  DRY_RUN :: bool
  ASG_USE_TERMINATION_POLICY :: bool
  K8S_WORKER_GROUPS_ORDER :: "string list"
  K8S_PARALLEL_NODES_COUNT :: int
  TAINT_NODES :: bool
  BATCH_SIZE :: int
  CLUSTER_HEALTH_RETRY :: int
  CLUSTER_HEALTH_WAIT :: int
  GLOBAL_MAX_RETRY :: int
  GLOBAL_HEALTH_WAIT :: int
  BETWEEN_NODES_WAIT :: int
  EXCLUDE_NODE_LABEL_KEYS :: "string list option"
  K8S_AUTOSCALER_ENABLED :: bool
  K8S_AUTOSCALER_REPLICAS :: int
  ASG_DESIRED_STATE_TAG :: string
  ASG_ORIG_CAPACITY_TAG :: string
  ASG_ORIG_MAX_CAPACITY_TAG :: string

text \<open>
  The environment: what the remote systems answer, given the calls made so far. The
  functions of \<open>lib/aws.py\<close> (not among the sources) are taken as they are called: each
  is an event, and the ones that return a value read it here. They are assumed to
  return normally; so are the loading of the kubeconfig and every Kubernetes call whose
  \<open>ApiException\<close> the source does not handle.
\<close>

record env =
  ext_is_asg_scaled :: "trace \<Rightarrow> string \<Rightarrow> int \<Rightarrow> bool"
  ext_is_asg_healthy :: "trace \<Rightarrow> string \<Rightarrow> bool"
  ext_count_all_cluster_instances :: "trace \<Rightarrow> string \<Rightarrow> bool \<Rightarrow> int"
  ext_terminate_instance_in_asg :: "trace \<Rightarrow> string \<Rightarrow> bool"
  ext_get_asgs :: "trace \<Rightarrow> string \<Rightarrow> asg list"
  ext_plan_asgs :: "trace \<Rightarrow> asg list \<Rightarrow> plan"
  ext_plan_asgs_older_nodes :: "trace \<Rightarrow> asg list \<Rightarrow> plan"
  ext_list_node :: "trace \<Rightarrow> k8s_node list"
  ext_list_pods :: "trace \<Rightarrow> string \<Rightarrow> pod list option"
  \<comment> \<open>\<open>None\<close>: the call raises \<open>ApiException\<close>\<close>
  ext_evict_ok :: "trace \<Rightarrow> string \<Rightarrow> string \<Rightarrow> bool"
  \<comment> \<open>\<open>False\<close>: the eviction raises \<open>ApiException\<close>\<close>
  ext_read_deployment :: "trace \<Rightarrow> deployment_read"
  ext_patch_deployment_ok :: "trace \<Rightarrow> bool"
  \<comment> \<open>\<open>False\<close>: the patch raises \<open>ApiException\<close>\<close>

section \<open>Python helpers\<close>

text \<open>
  \<open>int(s)\<close> on a string: surrounding whitespace is stripped (on an ASCII string these
  are the bytes 9 to 13 and 32), a sign is optional, digits may be separated by single
  underscores; anything else is a \<open>ValueError\<close>. \<open>int(None)\<close> is a \<open>TypeError\<close>. Characters
  are bytes here, so digits and spaces beyond ASCII are not covered, nor is the
  interpreter's limit on the number of digits.
\<close>

definition py_isspace :: "char \<Rightarrow> bool" where
  "py_isspace c = (let n = (of_char c :: nat) in (9 \<le> n \<and> n \<le> 13) \<or> n = 32)"

definition is_digit :: "char \<Rightarrow> bool" where
  "is_digit c = (let n = (of_char c :: nat) in 48 \<le> n \<and> n \<le> 57)"

definition digit_val :: "char \<Rightarrow> int" where
  "digit_val c = int (of_char c) - 48"

fun parse_digits :: "int \<Rightarrow> string \<Rightarrow> int option" where
  "parse_digits acc [] = Some acc"
| "parse_digits acc (c # cs) =
     (if is_digit c then parse_digits (acc * 10 + digit_val c) cs
      else if c = CHR ''_'' then
        (case cs of
           [] \<Rightarrow> None
         | d # ds \<Rightarrow> if is_digit d then parse_digits (acc * 10 + digit_val d) ds else None)
      else None)"

definition parse_nat :: "string \<Rightarrow> int option" where
  "parse_nat s =
     (case s of
        [] \<Rightarrow> None
      | c # cs \<Rightarrow> if is_digit c then parse_digits (digit_val c) cs else None)"

definition py_strip :: "string \<Rightarrow> string" where
  "py_strip s = rev (dropWhile py_isspace (rev (dropWhile py_isspace s)))"

definition parse_int :: "string \<Rightarrow> int option" where
  "parse_int s =
     (case py_strip s of
        [] \<Rightarrow> None
      | c # cs \<Rightarrow>
          if c = CHR ''-'' then map_option uminus (parse_nat cs)
          else if c = CHR ''+'' then parse_nat cs
          else parse_nat (c # cs))"

definition py_int :: "string option \<Rightarrow> error + int" where
  "py_int v =
     (case v of
        None \<Rightarrow> Inl TypeError
      | Some s \<Rightarrow> (case parse_int s of None \<Rightarrow> Inl ValueError | Some n \<Rightarrow> Inr n))"

text \<open>Truth value of \<open>tag.get('Value')\<close>: \<open>None\<close> and the empty string are false.\<close>

definition truthy :: "string option \<Rightarrow> bool" where
  "truthy v = (case v of None \<Rightarrow> False | Some s \<Rightarrow> s \<noteq> [])"


definition py_sleep :: "trace \<Rightarrow> int \<Rightarrow> trace \<times> (error + unit)" where
  "py_sleep tr secs =
     (if secs < - 9223372036 \<or> 9223372036 < secs then (tr, Inl OverflowError)
      else if secs < 0 then (tr, Inl ValueError)
      else (tr @ [Sleep secs], Inr ()))"

text \<open>
  Modelled from the spec: \<open>get_asg_tag\<close> of \<open>lib/aws.py\<close> is not among the sources. The
  spec gives a group an ordered list of \<open>Tag{key,value}\<close>; \<open>get_asg_tag(tags, name)\<close>
  followed by \<open>.get('Value')\<close> is the value of the tag with that key, \<open>None\<close> when the
  group has no such tag.
\<close>

definition get_asg_tag :: "(string \<times> string) list \<Rightarrow> string \<Rightarrow> string option" where
  "get_asg_tag tags tag_name = map_of tags tag_name"

section \<open>Kubernetes side (\<open>lib/k8s.py\<close>)\<close>

definition get_k8s_nodes :: "config \<Rightarrow> env \<Rightarrow> trace \<Rightarrow> trace \<times> k8s_node list \<times> k8s_node list" where
  "get_k8s_nodes cfg env tr =
     (let items = ext_list_node env tr; tr1 = tr @ [ListNode] in
      case EXCLUDE_NODE_LABEL_KEYS cfg of
        None \<Rightarrow> (tr1, items, [])
      | Some keys \<Rightarrow>
          (tr1,
           filter (\<lambda>node. \<forall>key \<in> set keys. key \<notin> set (labels node)) items,
           filter (\<lambda>node. \<not> (\<forall>key \<in> set keys. key \<notin> set (labels node))) items))"

text \<open>
  The \<open>while\<close> loops of \<open>k8s_nodes_count\<close> and \<open>k8s_nodes_ready\<close>, with their defaults
  \<open>max_retry = GLOBAL_MAX_RETRY\<close> and \<open>wait = GLOBAL_HEALTH_WAIT\<close> (no caller passes others).
  \<open>Inl\<close> is the exception of a \<open>wait\<close> that cannot be slept.
\<close>

function k8s_nodes_count_loop ::
  "config \<Rightarrow> env \<Rightarrow> int \<Rightarrow> int \<Rightarrow> bool \<Rightarrow> trace \<Rightarrow> trace \<times> (error + bool)" where
  "k8s_nodes_count_loop cfg env desired_node_count retry_count nodes_online tr =
     (if retry_count < GLOBAL_MAX_RETRY cfg then
        (case get_k8s_nodes cfg env tr of
           (tr1, nodes, excluded_nodes) \<Rightarrow>
             if int (length nodes) < desired_node_count then
               (case py_sleep tr1 (GLOBAL_HEALTH_WAIT cfg) of
                  (tr2, Inl e) \<Rightarrow> (tr2, Inl e)
                | (tr2, Inr u) \<Rightarrow>
                    k8s_nodes_count_loop cfg env desired_node_count (retry_count + 1) False tr2)
             else (tr1, Inr True))
      else (tr, Inr nodes_online))"
  by pat_completeness auto
termination
  by (relation "measure (\<lambda>(cfg, env, d, r, b, tr). nat (GLOBAL_MAX_RETRY cfg - r))") auto

definition k8s_nodes_count ::
  "config \<Rightarrow> env \<Rightarrow> trace \<Rightarrow> int \<Rightarrow> trace \<times> (error + bool)" where
  "k8s_nodes_count cfg env tr desired_node_count =
     k8s_nodes_count_loop cfg env desired_node_count 1 False (tr @ [Log CheckingNodesOnline])"

definition node_not_ready :: "k8s_node \<Rightarrow> bool" where
  "node_not_ready node = ((''Ready'', ''False'') \<in> set (conditions node))"

function k8s_nodes_ready_loop ::
  "config \<Rightarrow> env \<Rightarrow> int \<Rightarrow> bool \<Rightarrow> trace \<Rightarrow> trace \<times> (error + bool)" where
  "k8s_nodes_ready_loop cfg env retry_count healthy_nodes tr =
     (if retry_count < GLOBAL_MAX_RETRY cfg then
        (case get_k8s_nodes cfg env tr of
           (tr1, nodes, excluded_nodes) \<Rightarrow>
             if \<not> (\<exists>node \<in> set nodes. node_not_ready node) then (tr1, Inr True)
             else
               (case py_sleep tr1 (GLOBAL_HEALTH_WAIT cfg) of
                  (tr2, Inl e) \<Rightarrow> (tr2, Inl e)
                | (tr2, Inr u) \<Rightarrow> k8s_nodes_ready_loop cfg env (retry_count + 1) False tr2))
      else (tr, Inr healthy_nodes))"
  by pat_completeness auto
termination
  by (relation "measure (\<lambda>(cfg, env, r, b, tr). nat (GLOBAL_MAX_RETRY cfg - r))") auto

definition k8s_nodes_ready :: "config \<Rightarrow> env \<Rightarrow> trace \<Rightarrow> trace \<times> (error + bool)" where
  "k8s_nodes_ready cfg env tr =
     k8s_nodes_ready_loop cfg env 1 False (tr @ [Log CheckingNodesHealth])"


text \<open>Python's \<open>a in b\<close> on strings: \<open>a\<close> occurs in \<open>b\<close> as a contiguous run.\<close>

fun substring :: "string \<Rightarrow> string \<Rightarrow> bool" where
  "substring xs [] = (xs = [])"
| "substring xs (y # ys) = (prefix xs (y # ys) \<or> substring xs ys)"

text \<open>
  The \<open>for\<close> loop of \<open>get_node_by_instance_id\<close>: the name of the first node whose provider
  id contains the instance id (a provider id that is \<open>None\<close> raises inside the \<open>try\<close> and
  the node is passed over), the empty string when there is none.
\<close>

definition find_node_name :: "k8s_node list \<Rightarrow> string \<Rightarrow> string" where
  "find_node_name k8s_nodes instance_id =
     (case filter (\<lambda>node. case provider_id node of None \<Rightarrow> False
                                | Some p \<Rightarrow> substring instance_id p) k8s_nodes of
        [] \<Rightarrow> []
      | node # rest \<Rightarrow> node_name node)"

text \<open>
  \<open>get_node_by_instance_id\<close> with its default \<open>retries=3, delay=5\<close> (no caller passes
  others). When the first scan finds no name, the function sleeps and replaces
  \<open>k8s_nodes\<close> by the result of \<open>get_k8s_nodes()\<close>, which is the pair (nodes, excluded);
  the second scan iterates over that pair, skips both components as lists, and the
  warning that follows evaluates \<open>node.spec.provider_id\<close> on a list: \<open>AttributeError\<close>.
  The delay is the constant 5, so this sleep cannot raise.
\<close>

definition get_node_by_instance_id ::
  "config \<Rightarrow> env \<Rightarrow> trace \<Rightarrow> k8s_node list \<Rightarrow> string \<Rightarrow> trace \<times> (error + string)" where
  "get_node_by_instance_id cfg env tr k8s_nodes instance_id =
     (let name = find_node_name k8s_nodes instance_id in
      if name \<noteq> [] then (tr, Inr name)
      else (case get_k8s_nodes cfg env (tr @ [Sleep 5]) of
              (tr1, nodes, excluded_nodes) \<Rightarrow> (tr1, Inl AttributeError)))"

text \<open>\<open>cordon_node\<close>, \<open>taint_node\<close>, \<open>delete_node\<close>: the \<open>ApiException\<close> of the call is
  caught and logged, so they always return.\<close>

definition cordon_node :: "config \<Rightarrow> trace \<Rightarrow> string \<Rightarrow> trace" where
  "cordon_node cfg tr name = tr @ [PatchNodeUnschedulable name (DRY_RUN cfg)]"

definition taint_node :: "config \<Rightarrow> trace \<Rightarrow> string \<Rightarrow> trace" where
  "taint_node cfg tr name = tr @ [PatchNodeTaint name (DRY_RUN cfg)]"

definition delete_node :: "config \<Rightarrow> trace \<Rightarrow> string \<Rightarrow> trace" where
  "delete_node cfg tr name = tr @ [DeleteNodeApi name (DRY_RUN cfg)]"

fun evict_pods :: "env \<Rightarrow> trace \<Rightarrow> pod list \<Rightarrow> trace \<times> (error + unit)" where
  "evict_pods env tr [] = (tr, Inr ())"
| "evict_pods env tr (p # ps) =
     (if ''DaemonSet'' \<in> set (owner_kinds p) then evict_pods env tr ps
      else if ext_evict_ok env tr (pod_name p) (pod_namespace p)
        then evict_pods env (tr @ [EvictPod (pod_name p) (pod_namespace p)]) ps
      else (tr @ [EvictPod (pod_name p) (pod_namespace p)],
            Inl (EvictFailed (pod_name p) (pod_namespace p))))"

definition drain_node :: "config \<Rightarrow> env \<Rightarrow> trace \<Rightarrow> string \<Rightarrow> trace \<times> (error + unit)" where
  "drain_node cfg env tr name =
     (case ext_list_pods env tr name of
        None \<Rightarrow> (tr @ [ListPods name], Inl (DrainFailed name))
      | Some pods \<Rightarrow> evict_pods env (tr @ [ListPods name]) pods)"


section \<open>Health validator (\<open>validate_cluster_health\<close>)\<close>

text \<open>The body of the \<open>while\<close> loop: one attempt; \<open>Inr True\<close> is the \<open>return\<close>, \<open>Inr False\<close>
  a \<open>continue\<close>, \<open>Inl\<close> an exception raised by a sleep.\<close>

definition validate_attempt ::
  "config \<Rightarrow> env \<Rightarrow> trace \<Rightarrow> string \<Rightarrow> int \<Rightarrow> string \<Rightarrow> bool \<Rightarrow> string
     \<Rightarrow> trace \<times> (error + bool)" where
  "validate_attempt cfg env tr asg_name new_desired_asg_capacity cluster_name predictive
       health_check_type =
     (let cluster_health_wait = CLUSTER_HEALTH_WAIT cfg;
          tr0 = tr @ [Log (if health_check_type = ''asg''
                           then WaitingForAsgToScale cluster_health_wait
                           else WaitingBeforeValidating cluster_health_wait)] in
      case py_sleep tr0 cluster_health_wait of
        (tr1, Inl e) \<Rightarrow> (tr1, Inl e)
      | (tr1, Inr u) \<Rightarrow>
          (let tr2 = tr1 @ [IsAsgScaled asg_name new_desired_asg_capacity] in
           if \<not> ext_is_asg_scaled env tr1 asg_name new_desired_asg_capacity
           then (tr2 @ [Log (NotEnoughInstances asg_name)], Inr False)
           else
             (let tr3 = tr2 @ [IsAsgHealthy asg_name] in
              if \<not> ext_is_asg_healthy env tr2 asg_name
              then (tr3 @ [Log (InstancesNotHealthy asg_name)], Inr False)
              else
                (let desired_k8s_node_count =
                       ext_count_all_cluster_instances env tr3 cluster_name predictive;
                     tr4 = tr3 @ [CountAllClusterInstances cluster_name predictive] in
                 case k8s_nodes_count cfg env tr4 desired_k8s_node_count of
                   (tr5, Inl e) \<Rightarrow> (tr5, Inl e)
                 | (tr5, Inr nodes_online) \<Rightarrow>
                     if \<not> nodes_online
                     then (tr5 @ [Log (NodeCountNotReached cluster_name desired_k8s_node_count)],
                           Inr False)
                     else
                       (case k8s_nodes_ready cfg env tr5 of
                          (tr6, Inl e) \<Rightarrow> (tr6, Inl e)
                        | (tr6, Inr healthy_nodes) \<Rightarrow>
                            if \<not> healthy_nodes then (tr6 @ [Log NodesNotReady], Inr False)
                            else (tr6 @ [Log ValidationPassed], Inr True))))))"

function validate_loop ::
  "config \<Rightarrow> env \<Rightarrow> string \<Rightarrow> int \<Rightarrow> string \<Rightarrow> bool \<Rightarrow> string \<Rightarrow> int \<Rightarrow> trace
     \<Rightarrow> trace \<times> (error + unit)" where
  "validate_loop cfg env asg_name cap cluster_name predictive health_check_type retry_count tr =
     (if retry_count < CLUSTER_HEALTH_RETRY cfg then
        (case validate_attempt cfg env tr asg_name cap cluster_name predictive health_check_type of
           (tr1, Inl e) \<Rightarrow> (tr1, Inl e)
         | (tr1, Inr passed) \<Rightarrow>
             if passed then (tr1, Inr ())
             else validate_loop cfg env asg_name cap cluster_name predictive health_check_type
                    (retry_count + 1) tr1)
      else (tr, Inl HealthcheckFailed))"
  by pat_completeness auto
termination
  by (relation "measure (\<lambda>(cfg, env, a, c, cl, p, h, r, tr). nat (CLUSTER_HEALTH_RETRY cfg - r))")
     auto

definition validate_cluster_health ::
  "config \<Rightarrow> env \<Rightarrow> trace \<Rightarrow> string \<Rightarrow> int \<Rightarrow> string \<Rightarrow> bool \<Rightarrow> string \<Rightarrow> trace \<times> (error + unit)" where
  "validate_cluster_health cfg env tr asg_name new_desired_asg_capacity cluster_name predictive
       health_check_type =
     validate_loop cfg env asg_name new_desired_asg_capacity cluster_name predictive
       health_check_type 0 tr"

section \<open>Capacity controller (\<open>scale_up_asg\<close>)\<close>

text \<open>
  The \<open>while True\<close> loop of the fresh rollout. It need not end (a negative batch size
  moves away from the target), so it is a partial function: \<open>None\<close> is "never returns".
\<close>

partial_function (option) scale_up_loop ::
  "config \<Rightarrow> env \<Rightarrow> string \<Rightarrow> string \<Rightarrow> bool \<Rightarrow> int \<Rightarrow> int \<Rightarrow> int \<Rightarrow> int option \<Rightarrow> trace
     \<Rightarrow> (trace \<times> (error + unit)) option" where
  "scale_up_loop cfg env asg_name cluster_name predictive asg_old_max_size desired_capacity
       old_desired_capacity current_capacity tr =
     (let old1 = (if BATCH_SIZE cfg \<noteq> 0
                  then (case current_capacity of None \<Rightarrow> old_desired_capacity | Some c \<Rightarrow> c)
                  else old_desired_capacity);
          cur = (if BATCH_SIZE cfg \<noteq> 0
                 then (if old1 + BATCH_SIZE cfg \<ge> desired_capacity then desired_capacity
                       else old1 + BATCH_SIZE cfg)
                 else desired_capacity);
          tr1 = tr @ [ScaleAsg asg_name old1 cur
                        (if cur > asg_old_max_size then cur else asg_old_max_size)] in
      case validate_cluster_health cfg env tr1 asg_name cur cluster_name predictive ''asg'' of
        (tr2, Inl e) \<Rightarrow> Some (tr2, Inl e)
      | (tr2, Inr u) \<Rightarrow>
          if cur = desired_capacity then Some (tr2, Inr ())
          else scale_up_loop cfg env asg_name cluster_name predictive asg_old_max_size
                 desired_capacity old1 (Some cur) tr2)"

declare scale_up_loop.simps [code]

definition save_all_tags :: "config \<Rightarrow> trace \<Rightarrow> string \<Rightarrow> int \<Rightarrow> int \<Rightarrow> int \<Rightarrow> trace" where
  "save_all_tags cfg tr asg_name orig desired orig_max =
     tr @ [SaveAsgTags asg_name (ASG_ORIG_CAPACITY_TAG cfg) orig,
           SaveAsgTags asg_name (ASG_DESIRED_STATE_TAG cfg) desired,
           SaveAsgTags asg_name (ASG_ORIG_MAX_CAPACITY_TAG cfg) orig_max]"

text \<open>The tuple \<open>int(desired), int(orig), int(orig_max)\<close>, evaluated left to right.\<close>

definition tag_triple ::
  "string option \<Rightarrow> string option \<Rightarrow> string option \<Rightarrow> error + (int \<times> int \<times> int)" where
  "tag_triple d orig m =
     (case py_int d of Inl e \<Rightarrow> Inl e
      | Inr a \<Rightarrow> (case py_int orig of Inl e \<Rightarrow> Inl e
         | Inr b \<Rightarrow> (case py_int m of Inl e \<Rightarrow> Inl e
            | Inr c \<Rightarrow> Inr (a, b, c))))"

definition scale_up_asg ::
  "config \<Rightarrow> env \<Rightarrow> trace \<Rightarrow> string \<Rightarrow> asg \<Rightarrow> int
     \<Rightarrow> (trace \<times> (error + (int \<times> int \<times> int))) option" where
  "scale_up_asg cfg env tr cluster_name asg count =
     (let asg_old_max_size = MaxSize asg;
          asg_old_desired_capacity = DesiredCapacity asg;
          desired_capacity = asg_old_desired_capacity + count;
          asg_tags = Tags asg;
          asg_name = AutoScalingGroupName asg;
          tr1 = tr @ [ModifyAwsAutoscaling asg_name ''resume''];
          asg_tag_desired_capacity = get_asg_tag asg_tags (ASG_DESIRED_STATE_TAG cfg);
          asg_tag_orig_capacity = get_asg_tag asg_tags (ASG_ORIG_CAPACITY_TAG cfg);
          asg_tag_orig_max_capacity = get_asg_tag asg_tags (ASG_ORIG_MAX_CAPACITY_TAG cfg) in
      if desired_capacity = asg_old_desired_capacity then
        (if truthy asg_tag_desired_capacity \<and> truthy asg_tag_orig_capacity
            \<and> truthy asg_tag_orig_max_capacity
         then Some (tr1, tag_triple asg_tag_desired_capacity asg_tag_orig_capacity
                           asg_tag_orig_max_capacity)
         else Some (save_all_tags cfg tr1 asg_name asg_old_desired_capacity
                      asg_old_desired_capacity asg_old_max_size,
                    Inr (asg_old_desired_capacity, asg_old_desired_capacity, asg_old_max_size)))
      else
        (let predictive = ASG_USE_TERMINATION_POLICY cfg in
         if truthy asg_tag_desired_capacity then
           (case py_int asg_tag_desired_capacity of
              Inl e \<Rightarrow> Some (tr1, Inl e)
            | Inr n \<Rightarrow>
                (case validate_cluster_health cfg env tr1 asg_name n cluster_name predictive
                        ''regular'' of
                   (tr2, Inl e) \<Rightarrow> Some (tr2, Inl e)
                 | (tr2, Inr u) \<Rightarrow>
                     Some (tr2, tag_triple asg_tag_desired_capacity asg_tag_orig_capacity
                                  asg_tag_orig_max_capacity)))
         else
           (case scale_up_loop cfg env asg_name cluster_name predictive asg_old_max_size
                   desired_capacity asg_old_desired_capacity None
                   (save_all_tags cfg tr1 asg_name asg_old_desired_capacity desired_capacity
                      asg_old_max_size) of
              None \<Rightarrow> None
            | Some (tr2, Inl e) \<Rightarrow> Some (tr2, Inl e)
            | Some (tr2, Inr u) \<Rightarrow>
                Some (tr2, Inr (desired_capacity, asg_old_desired_capacity, asg_old_max_size)))))"


section \<open>Orchestrator (\<open>update_asgs\<close>)\<close>

type_synonym cache = "(string \<times> string) list"
  \<comment> \<open>\<open>instance_to_node_cache\<close>; the newest entry first\<close>

type_synonym state_dict = "(string \<times> int \<times> int \<times> int) list"
  \<comment> \<open>\<open>asg_state_dict\<close>\<close>

text \<open>\<open>d[k] = v\<close> on an insertion-ordered dict: an existing key keeps its place.\<close>

fun dict_set :: "('k \<times> 'v) list \<Rightarrow> 'k \<Rightarrow> 'v \<Rightarrow> ('k \<times> 'v) list" where
  "dict_set [] k v = [(k, v)]"
| "dict_set ((k', v') # d) k v = (if k' = k then (k, v) # d else (k', v') # dict_set d k v)"

text \<open>
  The lookup that the source repeats at each use: the cached name if the instance id is
  in \<open>instance_to_node_cache\<close>, else \<open>get_node_by_instance_id\<close> on the given node list,
  whose result is stored in the cache.
\<close>

definition cached_node_name ::
  "config \<Rightarrow> env \<Rightarrow> trace \<Rightarrow> cache \<Rightarrow> k8s_node list \<Rightarrow> string
     \<Rightarrow> trace \<times> cache \<times> (error + string)" where
  "cached_node_name cfg env tr cache nodes instance_id =
     (case map_of cache instance_id of
        Some name \<Rightarrow> (tr, cache, Inr name)
      | None \<Rightarrow>
          (case get_node_by_instance_id cfg env tr nodes instance_id of
             (tr1, Inl e) \<Rightarrow> (tr1, cache, Inl e)
           | (tr1, Inr name) \<Rightarrow> (tr1, (instance_id, name) # cache, Inr name)))"

definition mark_unschedulable :: "config \<Rightarrow> trace \<Rightarrow> string \<Rightarrow> trace" where
  "mark_unschedulable cfg tr name =
     (if \<not> TAINT_NODES cfg then cordon_node cfg tr name else taint_node cfg tr name)"

text \<open>Run mode 2: the scale-up of every group of the plan, before anything else.\<close>

fun scale_up_all ::
  "config \<Rightarrow> env \<Rightarrow> string \<Rightarrow> trace \<Rightarrow> state_dict \<Rightarrow> plan
     \<Rightarrow> (trace \<times> state_dict \<times> (error + unit)) option" where
  "scale_up_all cfg env cluster_name tr sd [] = Some (tr, sd, Inr ())"
| "scale_up_all cfg env cluster_name tr sd ((asg_name, outdated_instances, asg) # rest) =
     (case scale_up_asg cfg env tr cluster_name asg (int (length outdated_instances)) of
        None \<Rightarrow> None
      | Some (tr1, Inl e) \<Rightarrow> Some (tr1, sd, Inl e)
      | Some (tr1, Inr t) \<Rightarrow> scale_up_all cfg env cluster_name tr1 (dict_set sd asg_name t) rest)"

text \<open>Run modes 2 and 3: cordon or taint the outdated nodes of one group; a failure
  is \<open>exit(1)\<close>.\<close>

fun cordon_upfront ::
  "config \<Rightarrow> env \<Rightarrow> k8s_node list \<Rightarrow> trace \<Rightarrow> cache \<Rightarrow> outdated_instance list
     \<Rightarrow> trace \<times> cache \<times> (error + unit)" where
  "cordon_upfront cfg env k8s_nodes tr cache [] = (tr, cache, Inr ())"
| "cordon_upfront cfg env k8s_nodes tr cache (outdated # rest) =
     (case cached_node_name cfg env tr cache k8s_nodes (InstanceId outdated) of
        (tr1, cache1, Inr name) \<Rightarrow>
          cordon_upfront cfg env k8s_nodes (mark_unschedulable cfg tr1 name) cache1 rest
      | (tr1, cache1, Inl e) \<Rightarrow>
          if is_Exception e then (tr1 @ [Log (CordonError [])], cache1, Inl (SystemExit 1))
          else (tr1, cache1, Inl e))"

fun cordon_all_upfront ::
  "config \<Rightarrow> env \<Rightarrow> k8s_node list \<Rightarrow> trace \<Rightarrow> cache \<Rightarrow> plan
     \<Rightarrow> trace \<times> cache \<times> (error + unit)" where
  "cordon_all_upfront cfg env k8s_nodes tr cache [] = (tr, cache, Inr ())"
| "cordon_all_upfront cfg env k8s_nodes tr cache ((asg_name, outdated_instances, asg) # rest) =
     (if \<not> (\<exists>group \<in> set (K8S_WORKER_GROUPS_ORDER cfg). substring group asg_name)
      then cordon_all_upfront cfg env k8s_nodes (tr @ [Log (SkippingAsg asg_name)]) cache rest
      else (case cordon_upfront cfg env k8s_nodes tr cache outdated_instances of
              (tr1, cache1, Inl e) \<Rightarrow> (tr1, cache1, Inl e)
            | (tr1, cache1, Inr u) \<Rightarrow> cordon_all_upfront cfg env k8s_nodes tr1 cache1 rest))"

text \<open>The groups in the order of \<open>K8S_WORKER_GROUPS_ORDER\<close>.\<close>

definition sort_plan :: "string list \<Rightarrow> plan \<Rightarrow> plan" where
  "sort_plan worker_groups_order asg_outdated_instance_dict =
     fold (\<lambda>group sorted.
             fold (\<lambda>(asg_name, asg_tuple) sorted.
                     if substring group asg_name then dict_set sorted asg_name asg_tuple
                     else sorted)
               asg_outdated_instance_dict sorted)
       worker_groups_order []"

text \<open>Run modes 1 and 4: cordon or taint the outdated nodes of the group at hand; an
  instance found only among the excluded nodes is passed over.\<close>

fun cordon_group ::
  "config \<Rightarrow> env \<Rightarrow> k8s_node list \<Rightarrow> k8s_node list \<Rightarrow> trace \<Rightarrow> cache \<Rightarrow> outdated_instance list
     \<Rightarrow> trace \<times> cache \<times> (error + unit)" where
  "cordon_group cfg env k8s_nodes k8s_excluded_nodes tr cache [] = (tr, cache, Inr ())"
| "cordon_group cfg env k8s_nodes k8s_excluded_nodes tr cache (outdated # rest) =
     (case cached_node_name cfg env tr cache k8s_nodes (InstanceId outdated) of
        (tr1, cache1, Inr name) \<Rightarrow>
          cordon_group cfg env k8s_nodes k8s_excluded_nodes (mark_unschedulable cfg tr1 name)
            cache1 rest
      | (tr1, cache1, Inl e) \<Rightarrow>
          if \<not> is_Exception e then (tr1, cache1, Inl e)
          else
            (case cached_node_name cfg env tr1 cache1 k8s_excluded_nodes (InstanceId outdated) of
               (tr2, cache2, Inr name) \<Rightarrow>
                 cordon_group cfg env k8s_nodes k8s_excluded_nodes
                   (tr2 @ [Log (NodeWasExcluded name)]) cache2 rest
             | (tr2, cache2, Inl e2) \<Rightarrow>
                 if is_Exception e2
                 then (tr2 @ [Log (CordonError [])], cache2, Inl (SystemExit 1))
                 else (tr2, cache2, Inl e2)))"

text \<open>
  \<open>while running_updates >= parallel_nodes_count: time.sleep(10)\<close>. The body changes
  neither variable.
\<close>

partial_function (option) throttle_wait :: "int \<Rightarrow> int \<Rightarrow> trace \<Rightarrow> trace option" where
  "throttle_wait running_updates parallel_nodes_count tr =
     (if running_updates \<ge> parallel_nodes_count
      then throttle_wait running_updates parallel_nodes_count (tr @ [Sleep 10])
      else Some tr)"

declare throttle_wait.simps [code]

text \<open>
  The \<open>try\<close>/\<open>except\<close> of the retirement loop for one instance, after the wait. The state
  is the trace, the cache, \<open>desired_asg_capacity\<close> and \<open>running_updates\<close>; \<open>Inr ()\<close> goes on
  to the next instance (the end of the body or the \<open>continue\<close>), \<open>Inl\<close> is the exception
  that leaves the loop.
\<close>

definition retire_handler ::
  "config \<Rightarrow> env \<Rightarrow> string \<Rightarrow> k8s_node list \<Rightarrow> trace \<Rightarrow> cache \<Rightarrow> int \<Rightarrow> int
     \<Rightarrow> outdated_instance \<Rightarrow> error \<Rightarrow> trace \<times> cache \<times> int \<times> int \<times> (error + unit)" where
  "retire_handler cfg env asg_name k8s_excluded_nodes tr cache desired_asg_capacity
       running_updates outdated drain_exception =
     (if \<not> is_Exception drain_exception
      then (tr, cache, desired_asg_capacity, running_updates, Inl drain_exception)
      else
        (case cached_node_name cfg env tr cache k8s_excluded_nodes (InstanceId outdated) of
           (tr1, cache1, Inr name) \<Rightarrow>
             (tr1 @ [Log (NodeWasExcluded name)], cache1, desired_asg_capacity, running_updates,
              Inr ())
         | (tr1, cache1, Inl e) \<Rightarrow>
             (tr1, cache1, desired_asg_capacity, running_updates,
              Inl (RollingUpdateException ''Rolling update on ASG failed'' asg_name))))"

definition retire_one ::
  "config \<Rightarrow> env \<Rightarrow> string \<Rightarrow> k8s_node list \<Rightarrow> k8s_node list \<Rightarrow> trace \<Rightarrow> cache \<Rightarrow> int \<Rightarrow> int
     \<Rightarrow> outdated_instance \<Rightarrow> trace \<times> cache \<times> int \<times> int \<times> (error + unit)" where
  "retire_one cfg env asg_name k8s_nodes k8s_excluded_nodes tr cache desired_asg_capacity
       running_updates outdated =
     (case cached_node_name cfg env tr cache k8s_nodes (InstanceId outdated) of
        (tr1, cache1, Inl e) \<Rightarrow>
          retire_handler cfg env asg_name k8s_excluded_nodes tr1 cache1 desired_asg_capacity
            running_updates outdated e
      | (tr1, cache1, Inr name) \<Rightarrow>
          (let desired1 = desired_asg_capacity - 1 in
           case drain_node cfg env tr1 name of
             (tr2, Inl e) \<Rightarrow>
               retire_handler cfg env asg_name k8s_excluded_nodes tr2 cache1 desired1
                 running_updates outdated e
           | (tr2, Inr u) \<Rightarrow>
               (let tr3 = delete_node cfg tr2 name;
                    tr4 = tr3 @ [SaveAsgTags asg_name (ASG_DESIRED_STATE_TAG cfg) desired1] in
                if \<not> ASG_USE_TERMINATION_POLICY cfg then
                  (let terminated = ext_terminate_instance_in_asg env tr4 (InstanceId outdated);
                       tr5 = tr4 @ [TerminateInstanceInAsg (InstanceId outdated),
                                    Log (if terminated then InstanceTerminated (InstanceId outdated)
                                         else TerminationFailed (InstanceId outdated))] in
                   if BETWEEN_NODES_WAIT cfg \<noteq> 0 then
                     (case py_sleep tr5 (BETWEEN_NODES_WAIT cfg) of
                        (tr6, Inl e) \<Rightarrow>
                          retire_handler cfg env asg_name k8s_excluded_nodes tr6 cache1 desired1
                            (running_updates + 1) outdated e
                      | (tr6, Inr u) \<Rightarrow> (tr6, cache1, desired1, running_updates + 1, Inr ()))
                   else (tr5, cache1, desired1, running_updates + 1, Inr ()))
                else (tr4, cache1, desired1, running_updates, Inr ()))))"

fun retire_instances ::
  "config \<Rightarrow> env \<Rightarrow> string \<Rightarrow> k8s_node list \<Rightarrow> k8s_node list \<Rightarrow> trace \<Rightarrow> cache \<Rightarrow> int \<Rightarrow> int
     \<Rightarrow> outdated_instance list \<Rightarrow> (trace \<times> cache \<times> int \<times> (error + unit)) option" where
  "retire_instances cfg env asg_name k8s_nodes k8s_excluded_nodes tr cache desired_asg_capacity
       running_updates [] = Some (tr, cache, desired_asg_capacity, Inr ())"
| "retire_instances cfg env asg_name k8s_nodes k8s_excluded_nodes tr cache desired_asg_capacity
       running_updates (outdated # rest) =
     (case throttle_wait running_updates (K8S_PARALLEL_NODES_COUNT cfg) tr of
        None \<Rightarrow> None
      | Some tr0 \<Rightarrow>
          (case retire_one cfg env asg_name k8s_nodes k8s_excluded_nodes tr0 cache
                  desired_asg_capacity running_updates outdated of
             (tr1, cache1, desired1, running1, Inl e) \<Rightarrow> Some (tr1, cache1, desired1, Inl e)
           | (tr1, cache1, desired1, running1, Inr u) \<Rightarrow>
               retire_instances cfg env asg_name k8s_nodes k8s_excluded_nodes tr1 cache1 desired1
                 running1 rest))"

text \<open>The body of the loop over the sorted groups.\<close>

definition scale_down :: "config \<Rightarrow> trace \<Rightarrow> string \<Rightarrow> int \<times> int \<times> int \<Rightarrow> trace" where
  "scale_down cfg tr asg_name t =
     (case t of (asg_desired_capacity, asg_orig_desired_capacity, asg_orig_max_capacity) \<Rightarrow>
        tr @ [ScaleAsg asg_name asg_desired_capacity asg_orig_desired_capacity
                asg_orig_max_capacity]
           @ (if \<not> ASG_USE_TERMINATION_POLICY cfg
              then [ModifyAwsAutoscaling asg_name ''resume''] else [])
           @ [DeleteAsgTags asg_name (ASG_DESIRED_STATE_TAG cfg),
              DeleteAsgTags asg_name (ASG_ORIG_CAPACITY_TAG cfg),
              DeleteAsgTags asg_name (ASG_ORIG_MAX_CAPACITY_TAG cfg),
              Log (RollingUpdateComplete asg_name)])"

definition process_group ::
  "config \<Rightarrow> env \<Rightarrow> string \<Rightarrow> k8s_node list \<Rightarrow> k8s_node list \<Rightarrow> trace \<Rightarrow> cache \<Rightarrow> state_dict
     \<Rightarrow> string \<Rightarrow> outdated_instance list \<Rightarrow> asg
     \<Rightarrow> (trace \<times> cache \<times> state_dict \<times> (error + unit)) option" where
  "process_group cfg env cluster_name k8s_nodes k8s_excluded_nodes tr cache sd asg_name
       outdated_instances asg =
     (case (if RUN_MODE cfg = 1 \<or> RUN_MODE cfg = 3 \<or> RUN_MODE cfg = 4
            then (case scale_up_asg cfg env tr cluster_name asg (int (length outdated_instances)) of
                    None \<Rightarrow> None
                  | Some (tr1, Inl e) \<Rightarrow> Some (tr1, Inl e)
                  | Some (tr1, Inr t) \<Rightarrow> Some (tr1, Inr (dict_set sd asg_name t)))
            else Some (tr, Inr sd)) of
        None \<Rightarrow> None
      | Some (tr1, Inl e) \<Rightarrow> Some (tr1, cache, sd, Inl e)
      | Some (tr1, Inr sd1) \<Rightarrow>
          (case (if RUN_MODE cfg = 1 \<or> RUN_MODE cfg = 4
                 then cordon_group cfg env k8s_nodes k8s_excluded_nodes tr1 cache outdated_instances
                 else (tr1, cache, Inr ())) of
             (tr2, cache2, Inl e) \<Rightarrow> Some (tr2, cache2, sd1, Inl e)
           | (tr2, cache2, Inr u) \<Rightarrow>
               (let tr3 = (if outdated_instances \<noteq> [] \<and> \<not> ASG_USE_TERMINATION_POLICY cfg
                           then tr2 @ [ModifyAwsAutoscaling asg_name ''suspend''] else tr2) in
                case map_of sd1 asg_name of
                  None \<Rightarrow> Some (tr3, cache2, sd1, Inl KeyError)
                | Some t \<Rightarrow>
                    (case retire_instances cfg env asg_name k8s_nodes k8s_excluded_nodes tr3 cache2
                            (fst t) 0 outdated_instances of
                       None \<Rightarrow> None
                     | Some (tr4, cache4, desired4, Inl e) \<Rightarrow> Some (tr4, cache4, sd1, Inl e)
                     | Some (tr4, cache4, desired4, Inr u) \<Rightarrow>
                         Some (scale_down cfg tr4 asg_name t, cache4, sd1, Inr ())))))"

fun process_groups ::
  "config \<Rightarrow> env \<Rightarrow> string \<Rightarrow> k8s_node list \<Rightarrow> k8s_node list \<Rightarrow> trace \<Rightarrow> cache \<Rightarrow> state_dict
     \<Rightarrow> plan \<Rightarrow> (trace \<times> (error + unit)) option" where
  "process_groups cfg env cluster_name k8s_nodes k8s_excluded_nodes tr cache sd [] =
     Some (tr, Inr ())"
| "process_groups cfg env cluster_name k8s_nodes k8s_excluded_nodes tr cache sd
       ((asg_name, outdated_instances, asg) # rest) =
     (case process_group cfg env cluster_name k8s_nodes k8s_excluded_nodes tr cache sd asg_name
             outdated_instances asg of
        None \<Rightarrow> None
      | Some (tr1, cache1, sd1, Inl e) \<Rightarrow> Some (tr1, Inl e)
      | Some (tr1, cache1, sd1, Inr u) \<Rightarrow>
          process_groups cfg env cluster_name k8s_nodes k8s_excluded_nodes tr1 cache1 sd1 rest)"

definition update_asgs ::
  "config \<Rightarrow> env \<Rightarrow> trace \<Rightarrow> asg list \<Rightarrow> string \<Rightarrow> (trace \<times> (error + unit)) option" where
  "update_asgs cfg env tr asgs cluster_name =
     (let asg_outdated_instance_dict =
            (if RUN_MODE cfg = 4 then ext_plan_asgs_older_nodes env tr asgs
             else ext_plan_asgs env tr asgs);
          tr1 = tr @ [if RUN_MODE cfg = 4 then PlanAsgsOlderNodes else PlanAsgs] in
      case (if RUN_MODE cfg = 2
            then scale_up_all cfg env cluster_name tr1 [] asg_outdated_instance_dict
            else Some (tr1, [], Inr ())) of
        None \<Rightarrow> None
      | Some (tr2, sd, Inl e) \<Rightarrow> Some (tr2, Inl e)
      | Some (tr2, sd, Inr u) \<Rightarrow>
          (case get_k8s_nodes cfg env tr2 of
             (tr3, k8s_nodes, k8s_excluded_nodes) \<Rightarrow>
               (case (if RUN_MODE cfg = 2 \<or> RUN_MODE cfg = 3
                      then cordon_all_upfront cfg env k8s_nodes tr3 [] asg_outdated_instance_dict
                      else (tr3, [], Inr ())) of
                  (tr4, cache, Inl e) \<Rightarrow> Some (tr4, Inl e)
                | (tr4, cache, Inr u) \<Rightarrow>
                    process_groups cfg env cluster_name k8s_nodes k8s_excluded_nodes tr4 cache sd
                      (sort_plan (K8S_WORKER_GROUPS_ORDER cfg) asg_outdated_instance_dict))))"

section \<open>Process boundary (\<open>main\<close>)\<close>



section \<open>Specification-side notions\<close>

subsection \<open>The health validation, as specified\<close>










text \<open>
  The attempts: each logs that it waits, sleeps \<open>CLUSTER_HEALTH_WAIT\<close> and runs the four
  checks. The first attempt that passes is the last; a failed attempt is followed by the
  next one while the budget lasts. The validation returns when an attempt has passed and
  raises the health-check error when \<open>CLUSTER_HEALTH_RETRY\<close> attempts have failed.
\<close>

definition waiting_log :: "config \<Rightarrow> string \<Rightarrow> event" where
  "waiting_log cfg h = Log (if h = ''asg'' then WaitingForAsgToScale (CLUSTER_HEALTH_WAIT cfg)
                            else WaitingBeforeValidating (CLUSTER_HEALTH_WAIT cfg))"




subsection \<open>A small cluster\<close>

text \<open>One group \<open>w1\<close> of three instances, two nodes, everything healthy at once.\<close>

definition demo_config :: config where
  "demo_config =
     \<lparr>RUN_MODE = 1, DRY_RUN = False, ASG_USE_TERMINATION_POLICY = False,
      K8S_WORKER_GROUPS_ORDER = [''w''], K8S_PARALLEL_NODES_COUNT = 3, TAINT_NODES = False,
      BATCH_SIZE = 0, CLUSTER_HEALTH_RETRY = 2, CLUSTER_HEALTH_WAIT = 90, GLOBAL_MAX_RETRY = 12,
      GLOBAL_HEALTH_WAIT = 20, BETWEEN_NODES_WAIT = 0, EXCLUDE_NODE_LABEL_KEYS = None,
      K8S_AUTOSCALER_ENABLED = True, K8S_AUTOSCALER_REPLICAS = 2,
      ASG_DESIRED_STATE_TAG = ''d'', ASG_ORIG_CAPACITY_TAG = ''o'',
      ASG_ORIG_MAX_CAPACITY_TAG = ''m''\<rparr>"

definition demo_asg :: asg where
  "demo_asg = \<lparr>AutoScalingGroupName = ''w1'', MaxSize = 3, DesiredCapacity = 3, Tags = []\<rparr>"

definition demo_nodes :: "k8s_node list" where
  "demo_nodes =
     [\<lparr>node_name = ''n1'', provider_id = Some ''aws:///i-1'', labels = [],
       conditions = [(''Ready'', ''True'')]\<rparr>,
      \<lparr>node_name = ''n2'', provider_id = Some ''aws:///i-2'', labels = [],
       conditions = [(''Ready'', ''True'')]\<rparr>]"

definition demo_plan :: "outdated_instance list \<Rightarrow> asg list \<Rightarrow> plan" where
  "demo_plan outdated asgs = map (\<lambda>a. (AutoScalingGroupName a, outdated, a)) asgs"

definition demo_env :: env where
  "demo_env =
     \<lparr>ext_is_asg_scaled = (\<lambda>tr a c. True),
      ext_is_asg_healthy = (\<lambda>tr a. True),
      ext_count_all_cluster_instances = (\<lambda>tr c p. 2),
      ext_terminate_instance_in_asg = (\<lambda>tr i. True),
      ext_get_asgs = (\<lambda>tr c. [demo_asg]),
      ext_plan_asgs = (\<lambda>tr. demo_plan [\<lparr>InstanceId = ''i-1''\<rparr>]),
      ext_plan_asgs_older_nodes = (\<lambda>tr asgs. []),
      ext_list_node = (\<lambda>tr. demo_nodes),
      ext_list_pods = (\<lambda>tr n. Some [\<lparr>pod_name = ''p'', pod_namespace = ''ns'', owner_kinds = []\<rparr>]),
      ext_evict_ok = (\<lambda>tr p n. True),
      ext_read_deployment = (\<lambda>tr. Replicas 1),
      ext_patch_deployment_ok = (\<lambda>tr. True)\<rparr>"






subsection \<open>Classes of events\<close>

text \<open>
  \<open>extends_by P tr tr'\<close>: the trace \<open>tr'\<close> is \<open>tr\<close> followed by events that all satisfy \<open>P\<close>.
  The events of a validation only wait, log and read.
\<close>

definition extends_by :: "(event \<Rightarrow> bool) \<Rightarrow> trace \<Rightarrow> trace \<Rightarrow> bool" where
  "extends_by P tr tr' = (prefix tr tr' \<and> list_all P (drop (length tr) tr'))"

fun is_observation :: "event \<Rightarrow> bool" where
  "is_observation (Sleep n) = True"
| "is_observation (Log m) = True"
| "is_observation (IsAsgScaled a c) = True"
| "is_observation (IsAsgHealthy a) = True"
| "is_observation (CountAllClusterInstances c p) = True"
| "is_observation ListNode = True"
| "is_observation e = False"

subsection \<open>Capacity changes\<close>

text \<open>The calls that change a group's size or its state tags.\<close>

fun is_capacity_write :: "event \<Rightarrow> bool" where
  "is_capacity_write (ScaleAsg a old new mx) = True"
| "is_capacity_write (SaveAsgTags a k v) = True"
| "is_capacity_write e = False"

text \<open>
  The batches of a scale-up from \<open>C\<close> to \<open>T\<close> with batch size \<open>B\<close>, as the specification
  lists them: the \<open>k\<close>-th goes from \<open>C + (k - 1) * B\<close> to \<open>C + k * B\<close>, clipped to \<open>T\<close>, and
  there are \<open>(T - C) / B\<close> of them, rounded up.
\<close>

definition batch_steps :: "int \<Rightarrow> int \<Rightarrow> int \<Rightarrow> (int \<times> int) list" where
  "batch_steps C B T =
     map (\<lambda>k. (C + (int k - 1) * B, min (C + int k * B) T))
       [1..<Suc (nat ((T - C + B - 1) div B))]"

text \<open>
  What the specification asks of a list of batches, for group \<open>a\<close> with original maximum
  \<open>M\<close>: each batch is one \<open>scale_asg\<close> call (whose last argument is the new maximum: the
  new capacity when it exceeds \<open>M\<close>, else \<open>M\<close>), followed by a call of the health validator
  on the new capacity; the next batch is issued only when that call has returned, and an
  error it raises ends the scale-up.
\<close>

fun specified_batches ::
  "config \<Rightarrow> env \<Rightarrow> string \<Rightarrow> string \<Rightarrow> bool \<Rightarrow> int \<Rightarrow> trace \<Rightarrow> (int \<times> int) list
     \<Rightarrow> trace \<times> (error + unit)" where
  "specified_batches cfg env a cl p M tr [] = (tr, Inr ())"
| "specified_batches cfg env a cl p M tr ((old, new) # steps) =
     (case validate_cluster_health cfg env
             (tr @ [ScaleAsg a old new (if new > M then new else M)]) a new cl p ''asg'' of
        (tr', Inl e) \<Rightarrow> (tr', Inl e)
      | (tr', Inr u) \<Rightarrow> specified_batches cfg env a cl p M tr' steps)"


definition partial_asg :: asg where
  "partial_asg = demo_asg\<lparr>MaxSize := 5, DesiredCapacity := 5, Tags := [(''d'', ''5'')]\<rparr>"

definition bad_desired_asg :: asg where
  "bad_desired_asg = demo_asg\<lparr>MaxSize := 5, DesiredCapacity := 5, Tags := [(''d'', ''x'')]\<rparr>"

definition bad_orig_asg :: asg where
  "bad_orig_asg =
     demo_asg\<lparr>MaxSize := 5, DesiredCapacity := 5, Tags := [(''d'', ''5''), (''o'', ''x'')]\<rparr>"

text \<open>The small cluster rolled in batches of one.\<close>

definition batch_config :: config where
  "batch_config = demo_config\<lparr>BATCH_SIZE := 1\<rparr>"

subsection \<open>Scenarios of whole runs\<close>

text \<open>Every eviction is refused.\<close>

definition evict_fail_env :: env where
  "evict_fail_env = demo_env\<lparr>ext_evict_ok := (\<lambda>tr p n. False)\<rparr>"

text \<open>Two outdated instances in \<open>w1\<close>; each node runs one pod named after it, and the pod
  of \<open>n1\<close> cannot be evicted.\<close>

definition two_outdated :: "outdated_instance list" where
  "two_outdated = [\<lparr>InstanceId = ''i-1''\<rparr>, \<lparr>InstanceId = ''i-2''\<rparr>]"

definition first_drain_fails_env :: env where
  "first_drain_fails_env =
     demo_env\<lparr>ext_plan_asgs := (\<lambda>tr. demo_plan two_outdated),
               ext_list_pods := (\<lambda>tr n. Some [\<lparr>pod_name = n, pod_namespace = ''ns'', owner_kinds = []\<rparr>]),
               ext_evict_ok := (\<lambda>tr p n. p \<noteq> ''n1'')\<rparr>"

definition two_env :: env where
  "two_env = demo_env\<lparr>ext_plan_asgs := (\<lambda>tr. demo_plan two_outdated)\<rparr>"

text \<open>Run mode 2; a group whose name matches no entry of the worker-group order; a group
  that never reports the scaled capacity; at most one retirement in flight.\<close>

definition mode2_config :: config where
  "mode2_config = demo_config\<lparr>RUN_MODE := 2\<rparr>"

definition other_asg :: asg where
  "other_asg = demo_asg\<lparr>AutoScalingGroupName := ''other''\<rparr>"

definition unhealthy_env :: env where
  "unhealthy_env = demo_env\<lparr>ext_is_asg_scaled := (\<lambda>tr a c. False)\<rparr>"

definition parallel1_config :: config where
  "parallel1_config = demo_config\<lparr>K8S_PARALLEL_NODES_COUNT := 1\<rparr>"

subsection \<open>The state of a group in the cloud\<close>

text \<open>
  Modelled from the spec: \<open>scale_asg\<close>, \<open>save_asg_tags\<close> and \<open>delete_asg_tags\<close> of
  \<open>lib/aws.py\<close> are not among the sources. By the specification they patch the desired
  capacity and the maximum size of the group and create and delete its tags; nothing
  else of what the tool does is taken to change them. \<open>group_after asg tr\<close> is the group
  after the calls of \<open>tr\<close>, from the snapshot \<open>asg\<close> taken before.
\<close>

record group_state =
  gs_desired :: int
  gs_max :: int
  gs_tags :: "string list"

fun apply_event :: "string \<Rightarrow> event \<Rightarrow> group_state \<Rightarrow> group_state" where
  "apply_event a (ScaleAsg a' old new mx) g =
     (if a' = a then g\<lparr>gs_desired := new, gs_max := mx\<rparr> else g)"
| "apply_event a (SaveAsgTags a' k v) g =
     (if a' = a \<and> k \<notin> set (gs_tags g) then g\<lparr>gs_tags := gs_tags g @ [k]\<rparr> else g)"
| "apply_event a (DeleteAsgTags a' k) g =
     (if a' = a then g\<lparr>gs_tags := removeAll k (gs_tags g)\<rparr> else g)"
| "apply_event a e g = g"

definition group_before :: "asg \<Rightarrow> group_state" where
  "group_before asg =
     \<lparr>gs_desired = DesiredCapacity asg, gs_max = MaxSize asg, gs_tags = map fst (Tags asg)\<rparr>"

definition group_after :: "asg \<Rightarrow> trace \<Rightarrow> group_state" where
  "group_after asg tr = fold (apply_event (AutoScalingGroupName asg)) tr (group_before asg)"

subsection \<open>Calls to the cluster autoscaler's deployment\<close>




subsection \<open>What a run shows of a retired instance\<close>






section \<open>Proofs\<close>

subsection \<open>The events of the health validator\<close>

lemma get_k8s_nodes_trace: "fst (get_k8s_nodes cfg env tr) = tr @ [ListNode]"
  by (simp add: get_k8s_nodes_def Let_def split: option.splits)

lemma extends_by_iff:
  "extends_by P tr tr' \<longleftrightarrow> (\<exists>evs. tr' = tr @ evs \<and> list_all P evs)"
  by (auto simp: extends_by_def prefix_def)

lemma extends_by_refl [simp]: "extends_by P tr tr"
  by (simp add: extends_by_iff)

lemma extends_by_append [simp]: "extends_by P tr (tr @ evs) = list_all P evs"
  by (simp add: extends_by_iff)

lemma extends_by_trans: "extends_by P a b \<Longrightarrow> extends_by P b c \<Longrightarrow> extends_by P a c"
  by (auto simp: extends_by_iff)

lemma extends_by_snoc: "extends_by P a b \<Longrightarrow> list_all P evs \<Longrightarrow> extends_by P a (b @ evs)"
  by (auto simp: extends_by_iff)

lemma extends_by_from: "extends_by P (a @ evs) b \<Longrightarrow> list_all P evs \<Longrightarrow> extends_by P a b"
  by (auto simp: extends_by_iff)


lemma py_sleep_cases:
  obtains (raised) e where "py_sleep tr w = (tr, Inl e)"
  | (slept) "py_sleep tr w = (tr @ [Sleep w], Inr ())"
proof (cases "w < - 9223372036 \<or> 9223372036 < w")
  case True
  then show ?thesis using raised[of OverflowError] by (simp add: py_sleep_def)
next
  case False
  then show ?thesis
    using raised[of ValueError] slept by (cases "w < 0") (simp_all add: py_sleep_def)
qed

lemma k8s_nodes_count_loop_observes:
  "extends_by is_observation tr (fst (k8s_nodes_count_loop cfg env d r b tr))"
proof (induction "nat (GLOBAL_MAX_RETRY cfg - r)" arbitrary: r b tr)
  case 0
  then have "\<not> r < GLOBAL_MAX_RETRY cfg" by simp
  then show ?case by (subst k8s_nodes_count_loop.simps) simp
next
  case (Suc k)
  then have lt: "r < GLOBAL_MAX_RETRY cfg" and k: "k = nat (GLOBAL_MAX_RETRY cfg - (r + 1))"
    by simp_all
  obtain tr1 nodes ex where g: "get_k8s_nodes cfg env tr = (tr1, nodes, ex)"
    by (cases "get_k8s_nodes cfg env tr") auto
  have tr1: "tr1 = tr @ [ListNode]" using get_k8s_nodes_trace[of cfg env tr] g by simp
  show ?case
  proof (cases rule: py_sleep_cases[where w="GLOBAL_HEALTH_WAIT cfg" and tr=tr1])
    case (raised e)
    then show ?thesis
      apply (subst k8s_nodes_count_loop.simps)
      using lt g tr1 by simp
  next
    case slept
    have "extends_by is_observation tr
            (fst (k8s_nodes_count_loop cfg env d (r + 1) False (tr @ [ListNode, Sleep (GLOBAL_HEALTH_WAIT cfg)])))"
      by (rule extends_by_from[OF Suc(1)[OF k]]) simp
    then show ?thesis
      apply (subst k8s_nodes_count_loop.simps)
      using lt g tr1 slept by simp
  qed
qed

lemma k8s_nodes_ready_loop_observes:
  "extends_by is_observation tr (fst (k8s_nodes_ready_loop cfg env r b tr))"
proof (induction "nat (GLOBAL_MAX_RETRY cfg - r)" arbitrary: r b tr)
  case 0
  then have "\<not> r < GLOBAL_MAX_RETRY cfg" by simp
  then show ?case by (subst k8s_nodes_ready_loop.simps) simp
next
  case (Suc k)
  then have lt: "r < GLOBAL_MAX_RETRY cfg" and k: "k = nat (GLOBAL_MAX_RETRY cfg - (r + 1))"
    by simp_all
  obtain tr1 nodes ex where g: "get_k8s_nodes cfg env tr = (tr1, nodes, ex)"
    by (cases "get_k8s_nodes cfg env tr") auto
  have tr1: "tr1 = tr @ [ListNode]" using get_k8s_nodes_trace[of cfg env tr] g by simp
  show ?case
  proof (cases rule: py_sleep_cases[where w="GLOBAL_HEALTH_WAIT cfg" and tr=tr1])
    case (raised e)
    then show ?thesis
      apply (subst k8s_nodes_ready_loop.simps)
      using lt g tr1 by simp
  next
    case slept
    have "extends_by is_observation tr
            (fst (k8s_nodes_ready_loop cfg env (r + 1) False (tr @ [ListNode, Sleep (GLOBAL_HEALTH_WAIT cfg)])))"
      by (rule extends_by_from[OF Suc(1)[OF k]]) simp
    then show ?thesis
      apply (subst k8s_nodes_ready_loop.simps)
      using lt g tr1 slept by simp
  qed
qed

lemma k8s_nodes_count_observes:
  "extends_by is_observation tr (fst (k8s_nodes_count cfg env tr d))"
  unfolding k8s_nodes_count_def
  by (rule extends_by_from[OF k8s_nodes_count_loop_observes]) simp

lemma k8s_nodes_ready_observes:
  "extends_by is_observation tr (fst (k8s_nodes_ready cfg env tr))"
  unfolding k8s_nodes_ready_def
  by (rule extends_by_from[OF k8s_nodes_ready_loop_observes]) simp

lemma validate_attempt_observes:
  "extends_by is_observation tr (fst (validate_attempt cfg env tr a c cl p h))"
proof -
  define tr0 where "tr0 = tr @ [waiting_log cfg h]"
  show ?thesis
  proof (cases rule: py_sleep_cases[where w="CLUSTER_HEALTH_WAIT cfg" and tr=tr0])
    case (raised e)
    then show ?thesis
      by (simp add: validate_attempt_def Let_def tr0_def waiting_log_def)
  next
    case slept
    define tr4 where "tr4 = tr0 @ [Sleep (CLUSTER_HEALTH_WAIT cfg), IsAsgScaled a c, IsAsgHealthy a,
                                   CountAllClusterInstances cl p]"
    define n where "n = ext_count_all_cluster_instances env
       (tr0 @ [Sleep (CLUSTER_HEALTH_WAIT cfg), IsAsgScaled a c, IsAsgHealthy a]) cl p"
    obtain tr5 r5 where c5: "k8s_nodes_count cfg env tr4 n = (tr5, r5)"
      by (cases "k8s_nodes_count cfg env tr4 n") auto
    obtain tr6 r6 where c6: "k8s_nodes_ready cfg env tr5 = (tr6, r6)"
      by (cases "k8s_nodes_ready cfg env tr5") auto
    have e4: "extends_by is_observation tr tr4" by (simp add: tr4_def tr0_def waiting_log_def)
    have e5: "extends_by is_observation tr tr5"
      using extends_by_trans[OF e4 k8s_nodes_count_observes[of tr4 cfg env n]] c5 by simp
    have e6: "extends_by is_observation tr tr6"
      using extends_by_trans[OF e5 k8s_nodes_ready_observes[of tr5 cfg env]] c6 by simp
    have e5': "extends_by is_observation tr (tr5 @ [Log m])" for m
      by (rule extends_by_snoc[OF e5]) simp
    have e6': "extends_by is_observation tr (tr6 @ [Log m])" for m
      by (rule extends_by_snoc[OF e6]) simp
    have eq: "validate_attempt cfg env tr a c cl p h =
       (if \<not> ext_is_asg_scaled env (tr0 @ [Sleep (CLUSTER_HEALTH_WAIT cfg)]) a c
        then (tr0 @ [Sleep (CLUSTER_HEALTH_WAIT cfg), IsAsgScaled a c, Log (NotEnoughInstances a)],
              Inr False)
        else if \<not> ext_is_asg_healthy env (tr0 @ [Sleep (CLUSTER_HEALTH_WAIT cfg), IsAsgScaled a c]) a
        then (tr0 @ [Sleep (CLUSTER_HEALTH_WAIT cfg), IsAsgScaled a c, IsAsgHealthy a,
                     Log (InstancesNotHealthy a)], Inr False)
        else (case r5 of
                Inl e \<Rightarrow> (tr5, Inl e)
              | Inr nodes_online \<Rightarrow>
                  if \<not> nodes_online then (tr5 @ [Log (NodeCountNotReached cl n)], Inr False)
                  else (case r6 of
                          Inl e \<Rightarrow> (tr6, Inl e)
                        | Inr healthy \<Rightarrow>
                            if \<not> healthy then (tr6 @ [Log NodesNotReady], Inr False)
                            else (tr6 @ [Log ValidationPassed], Inr True))))"
      using slept c5 c6
      by (simp add: validate_attempt_def Let_def tr0_def[symmetric] waiting_log_def[symmetric]
          tr4_def n_def split: sum.splits)
    show ?thesis
      unfolding eq using e5 e6 e5' e6'
      by (simp add: tr0_def waiting_log_def split: sum.splits)
  qed
qed

lemma validate_loop_observes:
  "extends_by is_observation tr (fst (validate_loop cfg env a c cl p h r tr))"
proof (induction "nat (CLUSTER_HEALTH_RETRY cfg - r)" arbitrary: r tr)
  case 0
  then have "\<not> r < CLUSTER_HEALTH_RETRY cfg" by simp
  then show ?case by (subst validate_loop.simps) simp
next
  case (Suc k)
  then have lt: "r < CLUSTER_HEALTH_RETRY cfg" and k: "k = nat (CLUSTER_HEALTH_RETRY cfg - (r + 1))"
    by simp_all
  obtain tr1 r1 where va: "validate_attempt cfg env tr a c cl p h = (tr1, r1)"
    by (cases "validate_attempt cfg env tr a c cl p h") auto
  have e1: "extends_by is_observation tr tr1"
    using validate_attempt_observes[of tr cfg env a c cl p h] va by simp
  have e2: "extends_by is_observation tr (fst (validate_loop cfg env a c cl p h (r + 1) tr1))"
    by (rule extends_by_trans[OF e1 Suc(1)[OF k]])
  show ?case
    apply (subst validate_loop.simps)
    using lt va e1 e2 by (simp split: sum.splits)
qed

lemma validate_cluster_health_observes:
  "extends_by is_observation tr (fst (validate_cluster_health cfg env tr a c cl p h))"
  unfolding validate_cluster_health_def by (rule validate_loop_observes)

lemma observation_no_write: "is_observation e \<Longrightarrow> \<not> is_capacity_write e"
  by (cases e) auto

lemma validate_cluster_health_quiet:
  "\<exists>evs. fst (validate_cluster_health cfg env tr a c cl p h) = tr @ evs
     \<and> filter is_capacity_write evs = []"
proof -
  from validate_cluster_health_observes[of tr cfg env a c cl p h] obtain evs where
    e: "fst (validate_cluster_health cfg env tr a c cl p h) = tr @ evs" "list_all is_observation evs"
    unfolding extends_by_iff by blast
  from e(2) have "filter is_capacity_write evs = []"
    by (auto simp: filter_empty_conv list_all_iff dest: observation_no_write)
  with e(1) show ?thesis by blast
qed

subsection \<open>The health validator against its specification\<close>















subsection \<open>The resume branch of the capacity controller\<close>

lemma scale_up_asg_resume_eq:
  assumes "count \<noteq> 0" "truthy (get_asg_tag (Tags asg) (ASG_DESIRED_STATE_TAG cfg))"
  shows "scale_up_asg cfg env tr cl asg count =
     (case py_int (get_asg_tag (Tags asg) (ASG_DESIRED_STATE_TAG cfg)) of
        Inl e \<Rightarrow> Some (tr @ [ModifyAwsAutoscaling (AutoScalingGroupName asg) ''resume''], Inl e)
      | Inr n \<Rightarrow>
          (case validate_cluster_health cfg env
                  (tr @ [ModifyAwsAutoscaling (AutoScalingGroupName asg) ''resume''])
                  (AutoScalingGroupName asg) n cl (ASG_USE_TERMINATION_POLICY cfg) ''regular'' of
             (tr2, Inl e) \<Rightarrow> Some (tr2, Inl e)
           | (tr2, Inr u) \<Rightarrow>
               Some (tr2, tag_triple (get_asg_tag (Tags asg) (ASG_DESIRED_STATE_TAG cfg))
                            (get_asg_tag (Tags asg) (ASG_ORIG_CAPACITY_TAG cfg))
                            (get_asg_tag (Tags asg) (ASG_ORIG_MAX_CAPACITY_TAG cfg)))))"
  using assms by (simp add: scale_up_asg_def Let_def)

lemma py_int_error: "truthy v \<Longrightarrow> py_int v = Inl e \<Longrightarrow> e = ValueError"
  by (auto simp: py_int_def truthy_def split: option.splits)

lemma tag_triple_partial:
  assumes "py_int d = Inr n" and "orig = None \<or> m = None"
  shows "tag_triple d orig m =
           Inl (if orig \<noteq> None \<and> py_int orig = Inl ValueError then ValueError else TypeError)"
  using assms by (auto simp: tag_triple_def py_int_def split: sum.splits option.splits)



text \<open>
  C10, as stated, fails: the branch entered with a desired-capacity tag and without the
  two other tags does not always raise the conversion error on the missing value. When
  the group never reports the recorded capacity, the validation that comes first raises
  the health-check error, an error of the taxonomy. When the desired-capacity tag is no
  integer, its conversion raises \<open>ValueError\<close> before the validation; when the
  original-capacity tag is present and no integer, its conversion raises \<open>ValueError\<close>
  before the missing original-max tag is reached.
\<close>

theorem partial_tags_counterexample:
  "scale_up_asg demo_config unhealthy_env [] ''c'' partial_asg 2 =
     Some ([ModifyAwsAutoscaling ''w1'' ''resume'',
            Log (WaitingBeforeValidating 90), Sleep 90, IsAsgScaled ''w1'' 5,
            Log (NotEnoughInstances ''w1''),
            Log (WaitingBeforeValidating 90), Sleep 90, IsAsgScaled ''w1'' 5,
            Log (NotEnoughInstances ''w1'')], Inl HealthcheckFailed)
   \<and> scale_up_asg demo_config demo_env [] ''c'' bad_desired_asg 2 =
       Some ([ModifyAwsAutoscaling ''w1'' ''resume''], Inl ValueError)
   \<and> scale_up_asg demo_config demo_env [] ''c'' bad_orig_asg 2 =
       Some ([ModifyAwsAutoscaling ''w1'' ''resume'',
              Log (WaitingBeforeValidating 90), Sleep 90, IsAsgScaled ''w1'' 5,
              IsAsgHealthy ''w1'', CountAllClusterInstances ''c'' False,
              Log CheckingNodesOnline, ListNode, Log CheckingNodesHealth, ListNode,
              Log ValidationPassed], Inl ValueError)"
  by code_simp

text \<open>
  C10, amended. The resume branch entered with a positive count, a desired-capacity tag
  that has a value, and without the original-capacity or the original-max tag: the
  function never returns a triple and writes neither capacity nor tags (the tags are not
  treated as absent). It raises \<open>ValueError\<close> at once when the desired-capacity tag is no
  integer; otherwise it runs the health validation against the recorded capacity and
  raises what the validation raises; and when the validation has passed it raises the
  conversion error: \<open>TypeError\<close> on the missing value, unless the original-capacity tag is
  present and no integer, whose conversion raises \<open>ValueError\<close> first.
\<close>

theorem scale_up_asg_partial_tags_error:
  assumes "0 < count"
      and "truthy (get_asg_tag (Tags asg) (ASG_DESIRED_STATE_TAG cfg))"
      and "get_asg_tag (Tags asg) (ASG_ORIG_CAPACITY_TAG cfg) = None
           \<or> get_asg_tag (Tags asg) (ASG_ORIG_MAX_CAPACITY_TAG cfg) = None"
  shows "\<exists>evs e.
     scale_up_asg cfg env tr cl asg count =
       Some (tr @ ModifyAwsAutoscaling (AutoScalingGroupName asg) ''resume'' # evs, Inl e)
     \<and> filter is_capacity_write evs = []
     \<and> (case py_int (get_asg_tag (Tags asg) (ASG_DESIRED_STATE_TAG cfg)) of
          Inl e' \<Rightarrow> evs = [] \<and> e = ValueError
        | Inr n \<Rightarrow>
            fst (validate_cluster_health cfg env
                   (tr @ [ModifyAwsAutoscaling (AutoScalingGroupName asg) ''resume''])
                   (AutoScalingGroupName asg) n cl (ASG_USE_TERMINATION_POLICY cfg) ''regular'')
              = tr @ ModifyAwsAutoscaling (AutoScalingGroupName asg) ''resume'' # evs
            \<and> e = (case snd (validate_cluster_health cfg env
                              (tr @ [ModifyAwsAutoscaling (AutoScalingGroupName asg) ''resume''])
                              (AutoScalingGroupName asg) n cl (ASG_USE_TERMINATION_POLICY cfg)
                              ''regular'') of
                     Inl e' \<Rightarrow> e'
                   | Inr u \<Rightarrow>
                       if get_asg_tag (Tags asg) (ASG_ORIG_CAPACITY_TAG cfg) \<noteq> None
                          \<and> py_int (get_asg_tag (Tags asg) (ASG_ORIG_CAPACITY_TAG cfg))
                              = Inl ValueError
                       then ValueError else TypeError))"
proof -
  have c: "count \<noteq> 0" using assms by simp
  note eq = scale_up_asg_resume_eq[OF c assms(2), of env tr cl]
  show ?thesis
  proof (cases "py_int (get_asg_tag (Tags asg) (ASG_DESIRED_STATE_TAG cfg))")
    case (Inl e)
    then show ?thesis using eq py_int_error[OF assms(2) Inl] by simp
  next
    case (Inr n)
    note tt = tag_triple_partial[OF Inr assms(3)]
    obtain tr2 v where v: "validate_cluster_health cfg env
                   (tr @ [ModifyAwsAutoscaling (AutoScalingGroupName asg) ''resume''])
                   (AutoScalingGroupName asg) n cl (ASG_USE_TERMINATION_POLICY cfg) ''regular''
                 = (tr2, v)"
      by (cases "validate_cluster_health cfg env
                   (tr @ [ModifyAwsAutoscaling (AutoScalingGroupName asg) ''resume''])
                   (AutoScalingGroupName asg) n cl (ASG_USE_TERMINATION_POLICY cfg) ''regular''")
        auto
    from validate_cluster_health_quiet[of cfg env
        "tr @ [ModifyAwsAutoscaling (AutoScalingGroupName asg) ''resume'']"
        "AutoScalingGroupName asg" n cl "ASG_USE_TERMINATION_POLICY cfg" "''regular''"] v
    obtain evs where
      e: "tr2 = (tr @ [ModifyAwsAutoscaling (AutoScalingGroupName asg) ''resume'']) @ evs"
         "filter is_capacity_write evs = []"
      by auto
    show ?thesis
      apply (rule exI[of _ evs])
      using eq Inr v e tt by (auto split: sum.splits)
  qed
qed

theorem scale_up_asg_partial_tags_error_witness:
  "0 < (2::int) \<and> truthy (get_asg_tag (Tags partial_asg) (ASG_DESIRED_STATE_TAG demo_config))
   \<and> get_asg_tag (Tags partial_asg) (ASG_ORIG_CAPACITY_TAG demo_config) = None
   \<and> scale_up_asg demo_config demo_env [] ''c'' partial_asg 2 =
       Some ([ModifyAwsAutoscaling ''w1'' ''resume'',
              Log (WaitingBeforeValidating 90), Sleep 90, IsAsgScaled ''w1'' 5,
              IsAsgHealthy ''w1'', CountAllClusterInstances ''c'' False,
              Log CheckingNodesOnline, ListNode, Log CheckingNodesHealth, ListNode,
              Log ValidationPassed], Inl TypeError)"
proof -
  have h1: "0 < (2::int)" by simp
  have h2: "truthy (get_asg_tag (Tags partial_asg) (ASG_DESIRED_STATE_TAG demo_config))"
    by code_simp
  have h3: "get_asg_tag (Tags partial_asg) (ASG_ORIG_CAPACITY_TAG demo_config) = None"
    by code_simp
  have d: "py_int (get_asg_tag (Tags partial_asg) (ASG_DESIRED_STATE_TAG demo_config)) = Inr 5"
    by code_simp
  have n: "AutoScalingGroupName partial_asg = ''w1''"
    by (simp add: partial_asg_def demo_asg_def)
  have v1: "validate_cluster_health demo_config demo_env
                 ([] @ [ModifyAwsAutoscaling ''w1'' ''resume''])
                 ''w1'' 5 ''c'' (ASG_USE_TERMINATION_POLICY demo_config) ''regular'' =
             ([ModifyAwsAutoscaling ''w1'' ''resume'',
              Log (WaitingBeforeValidating 90), Sleep 90, IsAsgScaled ''w1'' 5,
              IsAsgHealthy ''w1'', CountAllClusterInstances ''c'' False,
              Log CheckingNodesOnline, ListNode, Log CheckingNodesHealth, ListNode,
              Log ValidationPassed], Inr ())"
    by code_simp
  have "scale_up_asg demo_config demo_env [] ''c'' partial_asg 2 =
       Some ([ModifyAwsAutoscaling ''w1'' ''resume'',
              Log (WaitingBeforeValidating 90), Sleep 90, IsAsgScaled ''w1'' 5,
              IsAsgHealthy ''w1'', CountAllClusterInstances ''c'' False,
              Log CheckingNodesOnline, ListNode, Log CheckingNodesHealth, ListNode,
              Log ValidationPassed], Inl TypeError)"
    using scale_up_asg_partial_tags_error[OF h1 h2 disjI1[OF h3], of demo_env "[]" "''c''"] v1
    by (auto simp: d n h3)
  with h1 h2 h3 show ?thesis by blast
qed

subsection \<open>Batch scale-up\<close>

lemma upt_shift: "map f [1..<Suc (Suc m)] = f 1 # map (\<lambda>k. f (Suc k)) [1..<Suc m]"
proof -
  have "[1..<Suc (Suc m)] = 1 # map Suc [1..<Suc m]"
    by (metis One_nat_def map_Suc_upt upt_conv_Cons zero_less_Suc Suc_less_eq)
  then show ?thesis by (simp add: comp_def)
qed

lemma batch_steps_last_step:
  assumes "0 < B" "C < T" "T \<le> C + B"
  shows "batch_steps C B T = [(C, T)]"
proof -
  have "(T - C + B - 1) div B = 1"
    using assms by (intro int_div_pos_eq[of _ _ _ "T - C - 1"]) auto
  then show ?thesis using assms by (simp add: batch_steps_def)
qed

lemma batch_steps_more:
  assumes "0 < B" "C + B < T"
  shows "batch_steps C B T = (C, C + B) # batch_steps (C + B) B T"
proof -
  define m where "m = nat ((T - (C + B) + B - 1) div B)"
  have "T - C + B - 1 = (T - (C + B) + B - 1) + 1 * B" by simp
  then have "(T - C + B - 1) div B = (T - (C + B) + B - 1) div B + 1"
    using assms(1) by (metis div_mult_self1 less_irrefl add.commute)
  moreover have "0 \<le> (T - (C + B) + B - 1) div B"
    using assms by (simp add: pos_imp_zdiv_nonneg_iff)
  ultimately have n: "nat ((T - C + B - 1) div B) = Suc m"
    by (simp add: m_def nat_add_distrib)
  show ?thesis
    unfolding batch_steps_def n m_def[symmetric] upt_shift
    using assms by (simp add: algebra_simps)
qed

lemma batch_steps_last:
  assumes "0 < B"
  shows "C < T \<Longrightarrow> batch_steps C B T \<noteq> [] \<and> snd (last (batch_steps C B T)) = T"
proof (induction "nat (T - C)" arbitrary: C rule: less_induct)
  case less
  show ?case
  proof (cases "T \<le> C + B")
    case True
    then show ?thesis using batch_steps_last_step[OF assms less.prems] by simp
  next
    case False
    then have lt: "C + B < T" by simp
    have "nat (T - (C + B)) < nat (T - C)" using assms less.prems by simp
    from less.hyps[OF this lt] show ?thesis
      using batch_steps_more[OF assms lt] by simp
  qed
qed

lemma scale_up_loop_batches:
  assumes "0 < BATCH_SIZE cfg"
  shows "b < T \<Longrightarrow> b = (case cur of None \<Rightarrow> old | Some c \<Rightarrow> c) \<Longrightarrow>
     scale_up_loop cfg env a cl p M T old cur tr =
       Some (specified_batches cfg env a cl p M tr (batch_steps b (BATCH_SIZE cfg) T))"
proof (induction "nat (T - b)" arbitrary: b old cur tr rule: less_induct)
  case less
  define B where "B = BATCH_SIZE cfg"
  have B: "0 < B" "BATCH_SIZE cfg = B" using assms by (simp_all add: B_def)
  define new where "new = (if b + B \<ge> T then T else b + B)"
  define mx where "mx = (if new > M then new else M)"
  define tr1 where "tr1 = tr @ [ScaleAsg a b new mx]"
  have old1: "(if BATCH_SIZE cfg \<noteq> 0 then (case cur of None \<Rightarrow> old | Some c \<Rightarrow> c) else old) = b"
    using less.prems B by simp
  have unfold: "scale_up_loop cfg env a cl p M T old cur tr =
     (case validate_cluster_health cfg env tr1 a new cl p ''asg'' of
        (tr2, Inl e) \<Rightarrow> Some (tr2, Inl e)
      | (tr2, Inr u) \<Rightarrow>
          if new = T then Some (tr2, Inr ())
          else scale_up_loop cfg env a cl p M T b (Some new) tr2)"
    apply (subst scale_up_loop.simps)
    unfolding Let_def old1
    using B by (simp add: new_def mx_def tr1_def)
  have steps: "batch_steps b B T = (b, new) # (if new = T then [] else batch_steps new B T)"
    using batch_steps_last_step[of B b T] batch_steps_more[of B b T] B less.prems
    by (auto simp: new_def)
  obtain tr2 v where v: "validate_cluster_health cfg env tr1 a new cl p ''asg'' = (tr2, v)"
    by (cases "validate_cluster_health cfg env tr1 a new cl p ''asg''") auto
  have run: "specified_batches cfg env a cl p M tr (batch_steps b B T) =
     (case v of Inl e \<Rightarrow> (tr2, Inl e)
      | Inr u \<Rightarrow> if new = T then (tr2, Inr ()) else specified_batches cfg env a cl p M tr2 (batch_steps new B T))"
    unfolding steps using v by (simp add: tr1_def mx_def split: sum.splits)
  show ?case
  proof (cases "new = T \<or> isl v")
    case True
    then show ?thesis
      unfolding unfold B run using v by (auto split: sum.splits simp: isl_def)
  next
    case False
    then have nb: "new = b + B" "new < T"
      using less.prems B by (auto simp: new_def split: if_splits)
    from False have vr: "v = Inr ()" by (cases v) auto
    have "nat (T - new) < nat (T - b)" using nb B less.prems by simp
    from less.hyps[OF this nb(2), of b "Some new" tr2]
    have ih: "scale_up_loop cfg env a cl p M T b (Some new) tr2 =
                Some (specified_batches cfg env a cl p M tr2 (batch_steps new B T))"
      by (simp add: B)
    show ?thesis
      unfolding unfold B run using v vr nb ih by simp
  qed
qed

text \<open>
  C5. A fresh rollout (no desired-capacity tag) with batch size \<open>B > 0\<close> smaller than the
  number of outdated instances, from capacity \<open>C\<close> to \<open>T = C + count\<close>. After the three
  tags are written, \<open>scale_up_asg\<close> runs the batches \<open>C + B, C + 2B, ..., T\<close> as specified:
  each is one \<open>scale_asg\<close> call, which raises the maximum only when the new capacity exceeds
  the original maximum, followed by a call of the health validator on the new capacity;
  the next batch is issued only when that call has returned, an error it raises is the
  outcome of \<open>scale_up_asg\<close>, and the triple is returned when the validation of the last
  batch has returned. The first batch stops at \<open>C + B\<close> and others follow, the last of
  which reaches \<open>T\<close>.
\<close>

theorem scale_up_asg_batches_validated:
  assumes "\<not> truthy (get_asg_tag (Tags asg) (ASG_DESIRED_STATE_TAG cfg))"
      and "0 < BATCH_SIZE cfg"
      and "BATCH_SIZE cfg < count"
  shows "\<exists>rest.
     scale_up_asg cfg env tr cl asg count =
       Some (case specified_batches cfg env (AutoScalingGroupName asg) cl (ASG_USE_TERMINATION_POLICY cfg)
                    (MaxSize asg)
                    (save_all_tags cfg
                       (tr @ [ModifyAwsAutoscaling (AutoScalingGroupName asg) ''resume''])
                       (AutoScalingGroupName asg) (DesiredCapacity asg)
                       (DesiredCapacity asg + count) (MaxSize asg))
                    (batch_steps (DesiredCapacity asg) (BATCH_SIZE cfg)
                       (DesiredCapacity asg + count)) of
               (tr', Inl e) \<Rightarrow> (tr', Inl e)
             | (tr', Inr u) \<Rightarrow>
                 (tr', Inr (DesiredCapacity asg + count, DesiredCapacity asg, MaxSize asg)))
     \<and> batch_steps (DesiredCapacity asg) (BATCH_SIZE cfg) (DesiredCapacity asg + count) =
         (DesiredCapacity asg, DesiredCapacity asg + BATCH_SIZE cfg) # rest
     \<and> rest \<noteq> [] \<and> snd (last rest) = DesiredCapacity asg + count"
proof -
  define C where "C = DesiredCapacity asg"
  define B where "B = BATCH_SIZE cfg"
  define a where "a = AutoScalingGroupName asg"
  define M where "M = MaxSize asg"
  define tr0 where "tr0 = save_all_tags cfg (tr @ [ModifyAwsAutoscaling a ''resume'']) a C (C + count) M"
  have cnt: "0 < count" "C < C + count" "C + B < C + count" "0 < B"
    using assms by (simp_all add: B_def)
  note l = scale_up_loop_batches[OF assms(2) cnt(2), where cur=None and old=C and env=env and a=a
      and cl=cl and p="ASG_USE_TERMINATION_POLICY cfg" and M=M and tr=tr0, simplified]
  have eq: "scale_up_asg cfg env tr cl asg count =
     Some (case specified_batches cfg env a cl (ASG_USE_TERMINATION_POLICY cfg) M tr0
                  (batch_steps C (BATCH_SIZE cfg) (C + count)) of
             (tr', Inl e) \<Rightarrow> (tr', Inl e)
           | (tr', Inr u) \<Rightarrow> (tr', Inr (C + count, C, M)))"
    using assms(1) cnt(1) l
    by (simp add: scale_up_asg_def Let_def C_def[symmetric] a_def[symmetric] M_def[symmetric]
        tr0_def[symmetric] split: sum.splits prod.splits)
  have st: "batch_steps C B (C + count) = (C, C + B) # batch_steps (C + B) B (C + count)"
    using batch_steps_more[OF cnt(4) cnt(3)] .
  have la: "batch_steps (C + B) B (C + count) \<noteq> []"
    "snd (last (batch_steps (C + B) B (C + count))) = C + count"
    using batch_steps_last[OF cnt(4) cnt(3)] by simp_all
  show ?thesis
    unfolding C_def[symmetric] B_def[symmetric] a_def[symmetric] M_def[symmetric] tr0_def[symmetric]
    apply (rule exI[of _ "batch_steps (C + B) B (C + count)"])
    using eq st la by (simp add: B_def)
qed

theorem scale_up_asg_batches_validated_witness:
  "\<not> truthy (get_asg_tag (Tags demo_asg) (ASG_DESIRED_STATE_TAG batch_config))
   \<and> 0 < BATCH_SIZE batch_config \<and> BATCH_SIZE batch_config < (2::int)
   \<and> scale_up_asg batch_config demo_env [] ''c'' demo_asg 2 =
       Some ([ModifyAwsAutoscaling ''w1'' ''resume'', SaveAsgTags ''w1'' ''o'' 3,
              SaveAsgTags ''w1'' ''d'' 5, SaveAsgTags ''w1'' ''m'' 3,
              ScaleAsg ''w1'' 3 4 4,
              Log (WaitingForAsgToScale 90), Sleep 90, IsAsgScaled ''w1'' 4,
              IsAsgHealthy ''w1'', CountAllClusterInstances ''c'' False,
              Log CheckingNodesOnline, ListNode, Log CheckingNodesHealth, ListNode,
              Log ValidationPassed,
              ScaleAsg ''w1'' 4 5 5,
              Log (WaitingForAsgToScale 90), Sleep 90, IsAsgScaled ''w1'' 5,
              IsAsgHealthy ''w1'', CountAllClusterInstances ''c'' False,
              Log CheckingNodesOnline, ListNode, Log CheckingNodesHealth, ListNode,
              Log ValidationPassed],
             Inr (5, 3, 3))
   \<and> scale_up_asg batch_config unhealthy_env [] ''c'' demo_asg 2 =
       Some ([ModifyAwsAutoscaling ''w1'' ''resume'', SaveAsgTags ''w1'' ''o'' 3,
              SaveAsgTags ''w1'' ''d'' 5, SaveAsgTags ''w1'' ''m'' 3,
              ScaleAsg ''w1'' 3 4 4,
              Log (WaitingForAsgToScale 90), Sleep 90, IsAsgScaled ''w1'' 4,
              Log (NotEnoughInstances ''w1''),
              Log (WaitingForAsgToScale 90), Sleep 90, IsAsgScaled ''w1'' 4,
              Log (NotEnoughInstances ''w1'')],
             Inl HealthcheckFailed)"
proof -
  have h1: "\<not> truthy (get_asg_tag (Tags demo_asg) (ASG_DESIRED_STATE_TAG batch_config))"
    by code_simp
  have h2: "0 < BATCH_SIZE batch_config" by code_simp
  have h3: "BATCH_SIZE batch_config < (2::int)" by code_simp
  have r1: "specified_batches batch_config demo_env (AutoScalingGroupName demo_asg) ''c''
              (ASG_USE_TERMINATION_POLICY batch_config) (MaxSize demo_asg)
              (save_all_tags batch_config
                 ([] @ [ModifyAwsAutoscaling (AutoScalingGroupName demo_asg) ''resume''])
                 (AutoScalingGroupName demo_asg) (DesiredCapacity demo_asg)
                 (DesiredCapacity demo_asg + 2) (MaxSize demo_asg))
              (batch_steps (DesiredCapacity demo_asg) (BATCH_SIZE batch_config)
                 (DesiredCapacity demo_asg + 2)) =
            ([ModifyAwsAutoscaling ''w1'' ''resume'', SaveAsgTags ''w1'' ''o'' 3,
              SaveAsgTags ''w1'' ''d'' 5, SaveAsgTags ''w1'' ''m'' 3,
              ScaleAsg ''w1'' 3 4 4,
              Log (WaitingForAsgToScale 90), Sleep 90, IsAsgScaled ''w1'' 4,
              IsAsgHealthy ''w1'', CountAllClusterInstances ''c'' False,
              Log CheckingNodesOnline, ListNode, Log CheckingNodesHealth, ListNode,
              Log ValidationPassed,
              ScaleAsg ''w1'' 4 5 5,
              Log (WaitingForAsgToScale 90), Sleep 90, IsAsgScaled ''w1'' 5,
              IsAsgHealthy ''w1'', CountAllClusterInstances ''c'' False,
              Log CheckingNodesOnline, ListNode, Log CheckingNodesHealth, ListNode,
              Log ValidationPassed], Inr ())"
    by code_simp
  have r2: "specified_batches batch_config unhealthy_env (AutoScalingGroupName demo_asg) ''c''
              (ASG_USE_TERMINATION_POLICY batch_config) (MaxSize demo_asg)
              (save_all_tags batch_config
                 ([] @ [ModifyAwsAutoscaling (AutoScalingGroupName demo_asg) ''resume''])
                 (AutoScalingGroupName demo_asg) (DesiredCapacity demo_asg)
                 (DesiredCapacity demo_asg + 2) (MaxSize demo_asg))
              (batch_steps (DesiredCapacity demo_asg) (BATCH_SIZE batch_config)
                 (DesiredCapacity demo_asg + 2)) =
            ([ModifyAwsAutoscaling ''w1'' ''resume'', SaveAsgTags ''w1'' ''o'' 3,
              SaveAsgTags ''w1'' ''d'' 5, SaveAsgTags ''w1'' ''m'' 3,
              ScaleAsg ''w1'' 3 4 4,
              Log (WaitingForAsgToScale 90), Sleep 90, IsAsgScaled ''w1'' 4,
              Log (NotEnoughInstances ''w1''),
              Log (WaitingForAsgToScale 90), Sleep 90, IsAsgScaled ''w1'' 4,
              Log (NotEnoughInstances ''w1'')], Inl HealthcheckFailed)"
    by code_simp
  have c: "(DesiredCapacity demo_asg + 2, DesiredCapacity demo_asg, MaxSize demo_asg) = (5, 3, 3)"
    by code_simp
  from scale_up_asg_batches_validated[OF h1 h2 h3, of demo_env "[]" "''c''"]
  have a: "scale_up_asg batch_config demo_env [] ''c'' demo_asg 2 =
       Some ([ModifyAwsAutoscaling ''w1'' ''resume'', SaveAsgTags ''w1'' ''o'' 3,
              SaveAsgTags ''w1'' ''d'' 5, SaveAsgTags ''w1'' ''m'' 3,
              ScaleAsg ''w1'' 3 4 4,
              Log (WaitingForAsgToScale 90), Sleep 90, IsAsgScaled ''w1'' 4,
              IsAsgHealthy ''w1'', CountAllClusterInstances ''c'' False,
              Log CheckingNodesOnline, ListNode, Log CheckingNodesHealth, ListNode,
              Log ValidationPassed,
              ScaleAsg ''w1'' 4 5 5,
              Log (WaitingForAsgToScale 90), Sleep 90, IsAsgScaled ''w1'' 5,
              IsAsgHealthy ''w1'', CountAllClusterInstances ''c'' False,
              Log CheckingNodesOnline, ListNode, Log CheckingNodesHealth, ListNode,
              Log ValidationPassed],
             Inr (5, 3, 3))"
    unfolding r1 c by auto
  from scale_up_asg_batches_validated[OF h1 h2 h3, of unhealthy_env "[]" "''c''"]
  have b: "scale_up_asg batch_config unhealthy_env [] ''c'' demo_asg 2 =
       Some ([ModifyAwsAutoscaling ''w1'' ''resume'', SaveAsgTags ''w1'' ''o'' 3,
              SaveAsgTags ''w1'' ''d'' 5, SaveAsgTags ''w1'' ''m'' 3,
              ScaleAsg ''w1'' 3 4 4,
              Log (WaitingForAsgToScale 90), Sleep 90, IsAsgScaled ''w1'' 4,
              Log (NotEnoughInstances ''w1''),
              Log (WaitingForAsgToScale 90), Sleep 90, IsAsgScaled ''w1'' 4,
              Log (NotEnoughInstances ''w1'')],
             Inl HealthcheckFailed)"
    unfolding r2 by auto
  show ?thesis using h1 h2 h3 a b by blast
qed

subsection \<open>Whole runs\<close>

lemmas demo_defs = demo_config_def demo_env_def demo_asg_def demo_nodes_def demo_plan_def

lemmas run_defs = update_asgs_def process_group_def scale_up_asg_def scale_up_loop.simps
  validate_cluster_health_def validate_attempt_def k8s_nodes_count_def k8s_nodes_ready_def
  get_k8s_nodes_def get_asg_tag_def truthy_def save_all_tags_def sort_plan_def
  cached_node_name_def get_node_by_instance_id_def find_node_name_def mark_unschedulable_def
  cordon_node_def taint_node_def delete_node_def drain_node_def retire_one_def retire_handler_def
  scale_down_def node_not_ready_def py_sleep_def Let_def

lemma throttle_wait_Some:
  assumes "throttle_wait r p tr = Some y"
  shows "r < p \<and> y = tr"
proof (rule throttle_wait.raw_induct[where P="\<lambda>r p tr y. r < p \<and> y = tr", OF _ assms])
  fix f :: "int \<Rightarrow> int \<Rightarrow> trace \<Rightarrow> trace option" and r p tr y
  assume ih: "\<And>r p tr y. f r p tr = Some y \<Longrightarrow> r < p \<and> y = tr"
    and st: "(if p \<le> r then f r p (tr @ [Sleep 10]) else Some tr) = Some y"
  show "r < p \<and> y = tr"
  proof (cases "p \<le> r")
    case True
    with st have "f r p (tr @ [Sleep 10]) = Some y" by simp
    from ih[OF this] True show ?thesis by simp
  next
    case False
    with st show ?thesis by simp
  qed
qed

lemma throttle_wait_blocks: "p \<le> r \<Longrightarrow> throttle_wait r p tr = None"
  using throttle_wait_Some[of r p tr] by (cases "throttle_wait r p tr") auto

lemma throttle_wait_passes: "r < p \<Longrightarrow> throttle_wait r p tr = Some tr"
  by (subst throttle_wait.simps) simp

text \<open>
  C2. The group \<open>w1\<close> has one outdated instance, whose node \<open>n1\<close> is among the included
  nodes, and the eviction of its pod fails. \<open>drain_node\<close> raises; the handler finds the
  instance in the cache that the lookup has just filled, logs the node as excluded and
  goes on: the group is scaled back down, its tags are deleted and the run returns
  normally, although nothing was retired.
\<close>

theorem eviction_failure_skipped:
  "update_asgs demo_config evict_fail_env [] [demo_asg] ''c'' =
     Some ([PlanAsgs, ListNode, ModifyAwsAutoscaling ''w1'' ''resume'',
            SaveAsgTags ''w1'' ''o'' 3, SaveAsgTags ''w1'' ''d'' 4, SaveAsgTags ''w1'' ''m'' 3,
            ScaleAsg ''w1'' 3 4 4, Log (WaitingForAsgToScale 90), Sleep 90,
            IsAsgScaled ''w1'' 4, IsAsgHealthy ''w1'', CountAllClusterInstances ''c'' False,
            Log CheckingNodesOnline, ListNode, Log CheckingNodesHealth, ListNode,
            Log ValidationPassed, PatchNodeUnschedulable ''n1'' False,
            ModifyAwsAutoscaling ''w1'' ''suspend'', ListPods ''n1'', EvictPod ''p'' ''ns'',
            Log (NodeWasExcluded ''n1''), ScaleAsg ''w1'' 4 3 3,
            ModifyAwsAutoscaling ''w1'' ''resume'', DeleteAsgTags ''w1'' ''d'',
            DeleteAsgTags ''w1'' ''o'', DeleteAsgTags ''w1'' ''m'',
            Log (RollingUpdateComplete ''w1'')],
           Inr ())"
  by code_simp

text \<open>
  C3. Two outdated instances from a capacity of 3, so the counter starts at 5. The drain
  of the first node fails after the counter has gone down to 4, and the instance is
  passed over; the second instance is retired and the value written to the
  desired-capacity tag is 3: two decrements for one retired instance.
\<close>

theorem failed_retirement_decrements:
  "update_asgs demo_config first_drain_fails_env [] [demo_asg] ''c'' =
     Some ([PlanAsgs, ListNode, ModifyAwsAutoscaling ''w1'' ''resume'',
            SaveAsgTags ''w1'' ''o'' 3, SaveAsgTags ''w1'' ''d'' 5, SaveAsgTags ''w1'' ''m'' 3,
            ScaleAsg ''w1'' 3 5 5, Log (WaitingForAsgToScale 90), Sleep 90,
            IsAsgScaled ''w1'' 5, IsAsgHealthy ''w1'', CountAllClusterInstances ''c'' False,
            Log CheckingNodesOnline, ListNode, Log CheckingNodesHealth, ListNode,
            Log ValidationPassed, PatchNodeUnschedulable ''n1'' False,
            PatchNodeUnschedulable ''n2'' False, ModifyAwsAutoscaling ''w1'' ''suspend'',
            ListPods ''n1'', EvictPod ''n1'' ''ns'', Log (NodeWasExcluded ''n1''),
            ListPods ''n2'', EvictPod ''n2'' ''ns'', DeleteNodeApi ''n2'' False,
            SaveAsgTags ''w1'' ''d'' 3, TerminateInstanceInAsg ''i-2'',
            Log (InstanceTerminated ''i-2''), ScaleAsg ''w1'' 5 3 3,
            ModifyAwsAutoscaling ''w1'' ''resume'', DeleteAsgTags ''w1'' ''d'',
            DeleteAsgTags ''w1'' ''o'', DeleteAsgTags ''w1'' ''m'',
            Log (RollingUpdateComplete ''w1'')],
           Inr ())"
  by code_simp

text \<open>
  C7. Run mode 2 and a group \<open>other\<close> that matches no entry of the worker-group order.
  The upfront scale-up takes every group of the plan, the cordoning and the per-group
  phase only the groups of the order: the run returns normally and leaves the group at
  4 of 4 instead of 3 of 3, with its three state tags.
\<close>

theorem unlisted_group_left_scaled_up:
  "map_option (\<lambda>(tr, r). (r, group_before other_asg, group_after other_asg tr))
     (update_asgs mode2_config demo_env [] [other_asg] ''c'') =
   Some (Inr (),
         \<lparr>gs_desired = 3, gs_max = 3, gs_tags = []\<rparr>,
         \<lparr>gs_desired = 4, gs_max = 4, gs_tags = [''o'', ''d'', ''m'']\<rparr>)"
  by code_simp

text \<open>
  C8. At most one retirement in flight and two outdated instances. After the first
  retirement \<open>running_updates\<close> is 1 and is never lowered, so the wait before the second
  one never ends: the run does not return.
\<close>

theorem retirement_blocks:
  "update_asgs parallel1_config two_env [] [demo_asg] ''c'' = None"
  by (simp add: parallel1_config_def two_env_def two_outdated_def demo_defs run_defs
      throttle_wait_blocks throttle_wait_passes)

subsection \<open>Run mode 2\<close>





























subsection \<open>The cluster autoscaler around a run\<close>
























end
